theory Spec2Isabelle
  imports Complex_Main "HOL-Library.Word" "HOL-Library.Multiset"
begin

section \<open>JavaScript values\<close>

text \<open>
  A JavaScript string is a sequence of 16-bit code units: \<open>length\<close> and
  \<open>substring\<close> count code units, not characters. String literals of the source
  that are not ASCII (the Thai user-facing texts) are written as their code units.
\<close>

type_synonym jsstring = "16 word list"

definition ascii :: "string \<Rightarrow> jsstring" where
  "ascii s = map of_char s"

text \<open>\<open>s.substring(0, n)\<close> for a constant \<open>n \<ge> 0\<close>.\<close>

definition substring0 :: "nat \<Rightarrow> jsstring \<Rightarrow> jsstring" where
  "substring0 n s = take n s"

text \<open>
  Conversion of an integral number to a string, as a template literal does it
  (decimal digits, a leading minus sign for negative numbers). Numbers of magnitude
  \<open>10^21\<close> and above, which JavaScript prints in exponent notation, are outside the model.
\<close>

fun digits :: "nat \<Rightarrow> jsstring" where
  "digits n = (if n < 10 then [of_nat (48 + n)] else digits (n div 10) @ [of_nat (48 + n mod 10)])"

declare digits.simps [simp del]

definition numberToString :: "int \<Rightarrow> jsstring" where
  "numberToString n = (if n < 0 then ascii ''-'' @ digits (nat (- n)) else digits (nat n))"

text \<open>
  Numbers that carry fractions (similarity scores, confidence) are modelled as exact
  reals; the source computes on IEEE doubles. \<open>Math.round\<close> rounds to the nearest
  integer, a tie going up.
\<close>

definition mathRound :: "real \<Rightarrow> int" where
  "mathRound x = \<lfloor>x + 1 / 2\<rfloor>"

text \<open>
  \<open>x || d\<close> on an optional number: \<open>undefined\<close> and \<open>0\<close> are both falsy,
  so both give the default.
\<close>

definition numberOr :: "real option \<Rightarrow> real \<Rightarrow> real" where
  "numberOr x d = (case x of None \<Rightarrow> d | Some v \<Rightarrow> if v = 0 then d else v)"

text \<open>\<open>Array.prototype.map\<close> with the callback's index argument, counting from \<open>i\<close>.\<close>

fun mapIndexed :: "('a \<Rightarrow> nat \<Rightarrow> 'b) \<Rightarrow> nat \<Rightarrow> 'a list \<Rightarrow> 'b list" where
  "mapIndexed f i [] = []"
| "mapIndexed f i (x # xs) = f x i # mapIndexed f (Suc i) xs"

text \<open>\<open>Array.prototype.join\<close> on an array of strings.\<close>

fun join :: "jsstring \<Rightarrow> jsstring list \<Rightarrow> jsstring" where
  "join sep [] = []"
| "join sep [x] = x"
| "join sep (x # y # ys) = x @ sep @ join sep (y # ys)"

text \<open>
  \<open>String.prototype.trim\<close> removes white space and line terminators from both ends.
\<close>

definition isWhiteSpace :: "16 word \<Rightarrow> bool" where
  "isWhiteSpace c = (c \<in> set [0x0009, 0x000A, 0x000B, 0x000C, 0x000D, 0x0020, 0x00A0, 0x1680,
     0x2000, 0x2001, 0x2002, 0x2003, 0x2004, 0x2005, 0x2006, 0x2007, 0x2008, 0x2009, 0x200A,
     0x2028, 0x2029, 0x202F, 0x205F, 0x3000, 0xFEFF])"

definition trim :: "jsstring \<Rightarrow> jsstring" where
  "trim s = rev (dropWhile isWhiteSpace (rev (dropWhile isWhiteSpace s)))"

text \<open>
  A thrown value: an \<open>Error\<close> object (or a subclass) with its message, or any other value.
\<close>

datatype js_thrown = Error jsstring | NonError

section \<open>Retrieved passages\<close>

record chunk_metadata =
  section' :: "jsstring option"

record chunk =
  content :: jsstring
  page_number :: int
  metadata :: "chunk_metadata option"
  similarity :: "real option"

section \<open>Confidence\<close>

text \<open>
  \<^verbatim>\<open>
  private static calculateConfidence(chunks: any[]): number {
    if (chunks.length === 0) return 0;
    const avgSimilarity = chunks.reduce((sum, chunk) =>
      sum + (chunk.similarity || 0.8), 0
    ) / chunks.length;
    return Math.round(avgSimilarity * 100) / 100;
  }
  \<close>
\<close>

definition calculateConfidence :: "chunk list \<Rightarrow> real" where
  "calculateConfidence chunks =
     (if length chunks = 0 then 0
      else
        let avgSimilarity =
              foldl (\<lambda>sum chunk. sum + numberOr (similarity chunk) 0.8) 0 chunks
                / real (length chunks)
        in real_of_int (mathRound (avgSimilarity * 100)) / 100)"

text \<open>
  The confidence as the specification words it: the mean of the similarity scores where
  only a missing score counts as 0.8, rounded to two decimal places.
\<close>

definition spec_confidence :: "chunk list \<Rightarrow> real" where
  "spec_confidence chunks =
     (if chunks = [] then 0
      else real_of_int (round
             (sum_list (map (\<lambda>c. case similarity c of None \<Rightarrow> 0.8 | Some v \<Rightarrow> v) chunks)
                / real (length chunks) * 100)) / 100)"

section \<open>Context assembly\<close>

text \<open>The sentinel returned for an empty passage list (34 Thai code units).\<close>

definition noRelevantContent :: jsstring where
  "noRelevantContent =
    [0x0E44, 0x0E21, 0x0E48, 0x0E1E, 0x0E1A, 0x0E40, 0x0E19, 0x0E37, 0x0E49, 0x0E2D, 0x0E2B,
     0x0E32, 0x0E17, 0x0E35, 0x0E48, 0x0E40, 0x0E01, 0x0E35, 0x0E48, 0x0E22, 0x0E27, 0x0E02,
     0x0E49, 0x0E2D, 0x0E07, 0x0E43, 0x0E19, 0x0E2B, 0x0E19, 0x0E31, 0x0E07, 0x0E2A, 0x0E37,
     0x0E2D]"

text \<open>The two Thai fragments of a block header: "[part " and " - page ".\<close>

definition partLabel :: jsstring where
  "partLabel = [0x005B, 0x0E2A, 0x0E48, 0x0E27, 0x0E19, 0x0E17, 0x0E35, 0x0E48, 0x0020]"

definition pageLabel :: jsstring where
  "pageLabel = [0x0020, 0x002D, 0x0020, 0x0E2B, 0x0E19, 0x0E49, 0x0E32, 0x0020]"

definition newline :: jsstring where
  "newline = [0x000A]"

definition contextSeparator :: jsstring where
  "contextSeparator = newline @ newline @ ascii ''---'' @ newline @ newline"

text \<open>
  \<^verbatim>\<open>
  private static buildContext(chunks: any[]): string {
    if (chunks.length === 0) { return <sentinel>; }
    const contextParts = chunks.map((chunk, index) =>
      `[<part> ${index + 1} - <page> ${chunk.page_number}]\n${chunk.content}`);
    return contextParts.join('\n\n---\n\n');
  }
  \<close>
\<close>

definition contextParts :: "chunk list \<Rightarrow> jsstring list" where
  "contextParts chunks =
     mapIndexed (\<lambda>chunk index.
        partLabel @ numberToString (int index + 1) @ pageLabel
          @ numberToString (page_number chunk) @ ascii '']'' @ newline @ chunk.content chunk)
       0 chunks"

definition buildContext :: "chunk list \<Rightarrow> jsstring" where
  "buildContext chunks =
     (if length chunks = 0 then noRelevantContent
      else join contextSeparator (contextParts chunks))"

section \<open>The record store\<close>

text \<open>
  Modelled from the spec: the record store and the schema of its two tables are not part
  of the sources at hand. The specification gives a chat session the fields id, user,
  document, title, creation and update time, and a chat message the fields id, session,
  role, content, optional metadata and creation time; the store supports insert with a
  generated id, filtering by equality, ordering by a timestamp column in either
  direction, and answers with a structured error. Time stamps are natural numbers.
\<close>

datatype pg_error = PgError (message: jsstring)

datatype chat_role = User | Assistant

record message_metadata =
  sources :: "jsstring list"
  confidence :: real

record session_row =
  id :: jsstring
  user_id :: jsstring
  book_id :: jsstring
  title :: jsstring
  created_at :: nat
  updated_at :: nat

record message_row =
  id :: jsstring
  session_id :: jsstring
  content :: jsstring
  role :: chat_role
  metadata :: "message_metadata option"
  created_at :: nat

text \<open>The \<open>{ data, error }\<close> object every store call resolves to.\<close>

record 'a store_response =
  data :: "'a option"
  error :: "pg_error option"

text \<open>
  A select built by \<open>.select('*').eq(column, value)...order(column, { ascending })\<close>.
\<close>

record select_query =
  eqs :: "(string \<times> jsstring) list"
  orderColumn :: string
  ascending :: bool

datatype store_op =
    InsertSession jsstring jsstring jsstring
  | InsertMessage jsstring jsstring chat_role "message_metadata option"
  | SelectSessions select_query
  | SelectMessages select_query

section \<open>The completion service\<close>

datatype groq_role = GroqSystem | GroqUser | GroqAssistant

record groq_message =
  role :: groq_role
  content :: jsstring

record groq_options =
  temperature :: "real option"
  maxTokens :: "nat option"
  model :: "jsstring option"

text \<open>
  The JSON body posted to the chat completions endpoint. The URL and the headers are
  constants of the class and are left out.
\<close>

record groq_request =
  model :: jsstring
  messages :: "groq_message list"
  temperature :: real
  max_tokens :: nat
  stream :: bool

text \<open>
  A parsed response body: \<open>error_message\<close> is \<open>body.error?.message\<close>, \<open>choices\<close>
  is \<open>body.choices\<close> with each choice given by its \<open>message.content\<close>.
\<close>

record groq_json =
  error_message :: "jsstring option"
  choices :: "jsstring list option"

record http_response =
  ok :: bool
  status :: nat
  statusText :: jsstring
  json :: "js_thrown + groq_json"

section \<open>The world: tables, trace, collaborators\<close>

datatype logged = Thrown js_thrown | StoreError pg_error

datatype event =
    SearchCall jsstring jsstring nat
  | FetchCall groq_request
  | StoreCall store_op
  | ConsoleError jsstring logged

record world =
  chat_sessions :: "session_row list"
  chat_messages :: "message_row list"
  events :: "event list"

text \<open>
  The collaborators answer as they please, depending on the world so far: the retrieval
  service throws or returns passages, \<open>fetch\<close> rejects or resolves to a response, the
  store rejects an operation with an error or accepts it, and chooses ids and time stamps.
\<close>

record env =
  searchSimilarContent :: "world \<Rightarrow> jsstring \<Rightarrow> jsstring \<Rightarrow> nat \<Rightarrow> js_thrown + chunk list"
  fetch :: "world \<Rightarrow> groq_request \<Rightarrow> js_thrown + http_response"
  storeFault :: "world \<Rightarrow> store_op \<Rightarrow> pg_error option"
  generatedId :: "world \<Rightarrow> jsstring"
  timestamp :: "world \<Rightarrow> nat"

definition record_event :: "event \<Rightarrow> world \<Rightarrow> world" where
  "record_event ev w = w\<lparr>events := events w @ [ev]\<rparr>"

definition consoleError :: "jsstring \<Rightarrow> logged \<Rightarrow> world \<Rightarrow> world" where
  "consoleError label payload w = record_event (ConsoleError label payload) w"

subsection \<open>Store operations\<close>

text \<open>
  Modelled from the spec: what the store does with an insert and a select. Every call is
  written to the trace. A call the store rejects answers with the error and changes no
  table. An accepted insert appends one row with a generated id and the current time
  stamp; the session insert answers with the new id (\<open>.select('id').single()\<close>). An
  accepted select answers with the rows that match every equality filter, ordered by the
  given time column; a column the table does not have is an error of its own.
\<close>

definition storeInsertSession ::
  "env \<Rightarrow> world \<Rightarrow> jsstring \<Rightarrow> jsstring \<Rightarrow> jsstring \<Rightarrow> jsstring store_response \<times> world" where
  "storeInsertSession env w user book ttl =
     (let w1 = record_event (StoreCall (InsertSession user book ttl)) w in
      case storeFault env w (InsertSession user book ttl) of
        Some e \<Rightarrow> (\<lparr>data = None, error = Some e\<rparr>, w1)
      | None \<Rightarrow>
          (\<lparr>data = Some (generatedId env w), error = None\<rparr>,
           w1\<lparr>chat_sessions := chat_sessions w @
                [\<lparr>session_row.id = generatedId env w, user_id = user, book_id = book,
                  title = ttl, created_at = timestamp env w, updated_at = timestamp env w\<rparr>]\<rparr>))"

definition storeInsertMessage ::
  "env \<Rightarrow> world \<Rightarrow> jsstring \<Rightarrow> jsstring \<Rightarrow> chat_role \<Rightarrow> message_metadata option
     \<Rightarrow> unit store_response \<times> world" where
  "storeInsertMessage env w sid text r meta =
     (let w1 = record_event (StoreCall (InsertMessage sid text r meta)) w in
      case storeFault env w (InsertMessage sid text r meta) of
        Some e \<Rightarrow> (\<lparr>data = None, error = Some e\<rparr>, w1)
      | None \<Rightarrow>
          (\<lparr>data = None, error = None\<rparr>,
           w1\<lparr>chat_messages := chat_messages w @
                [\<lparr>message_row.id = generatedId env w, session_id = sid, content = text,
                  role = r, metadata = meta, created_at = timestamp env w\<rparr>]\<rparr>))"

definition unknownColumn :: pg_error where
  "unknownColumn = PgError (ascii ''column does not exist'')"

definition runSelect ::
  "(string \<Rightarrow> ('r \<Rightarrow> jsstring) option) \<Rightarrow> (string \<Rightarrow> ('r \<Rightarrow> nat) option) \<Rightarrow> select_query
     \<Rightarrow> 'r list \<Rightarrow> pg_error + 'r list" where
  "runSelect textColumn timeColumn q rows =
     (case those (map (\<lambda>(c, v). map_option (\<lambda>sel. (sel, v)) (textColumn c)) (eqs q)) of
        None \<Rightarrow> Inl unknownColumn
      | Some filters \<Rightarrow>
          (case timeColumn (orderColumn q) of
             None \<Rightarrow> Inl unknownColumn
           | Some key \<Rightarrow>
               let matching = filter (\<lambda>r. list_all (\<lambda>(sel, v). sel r = v) filters) rows;
                   ordered = sort_key key matching
               in Inr (if ascending q then ordered else rev ordered)))"

definition sessionTextColumn :: "string \<Rightarrow> (session_row \<Rightarrow> jsstring) option" where
  "sessionTextColumn c =
     (if c = ''id'' then Some session_row.id
      else if c = ''user_id'' then Some user_id
      else if c = ''book_id'' then Some book_id
      else if c = ''title'' then Some title
      else None)"

definition sessionTimeColumn :: "string \<Rightarrow> (session_row \<Rightarrow> nat) option" where
  "sessionTimeColumn c =
     (if c = ''created_at'' then Some session_row.created_at
      else if c = ''updated_at'' then Some updated_at
      else None)"

definition messageTextColumn :: "string \<Rightarrow> (message_row \<Rightarrow> jsstring) option" where
  "messageTextColumn c =
     (if c = ''id'' then Some message_row.id
      else if c = ''session_id'' then Some session_id
      else if c = ''content'' then Some message_row.content
      else None)"

definition messageTimeColumn :: "string \<Rightarrow> (message_row \<Rightarrow> nat) option" where
  "messageTimeColumn c = (if c = ''created_at'' then Some message_row.created_at else None)"

definition storeSelectSessions ::
  "env \<Rightarrow> world \<Rightarrow> select_query \<Rightarrow> session_row list store_response \<times> world" where
  "storeSelectSessions env w q =
     (let w1 = record_event (StoreCall (SelectSessions q)) w in
      case storeFault env w (SelectSessions q) of
        Some e \<Rightarrow> (\<lparr>data = None, error = Some e\<rparr>, w1)
      | None \<Rightarrow>
          (case runSelect sessionTextColumn sessionTimeColumn q (chat_sessions w) of
             Inl e \<Rightarrow> (\<lparr>data = None, error = Some e\<rparr>, w1)
           | Inr rows \<Rightarrow> (\<lparr>data = Some rows, error = None\<rparr>, w1)))"

definition storeSelectMessages ::
  "env \<Rightarrow> world \<Rightarrow> select_query \<Rightarrow> message_row list store_response \<times> world" where
  "storeSelectMessages env w q =
     (let w1 = record_event (StoreCall (SelectMessages q)) w in
      case storeFault env w (SelectMessages q) of
        Some e \<Rightarrow> (\<lparr>data = None, error = Some e\<rparr>, w1)
      | None \<Rightarrow>
          (case runSelect messageTextColumn messageTimeColumn q (chat_messages w) of
             Inl e \<Rightarrow> (\<lparr>data = None, error = Some e\<rparr>, w1)
           | Inr rows \<Rightarrow> (\<lparr>data = Some rows, error = None\<rparr>, w1)))"

section \<open>GroqService\<close>

definition DEFAULT_MODEL :: jsstring where
  "DEFAULT_MODEL = ascii ''llama-3.1-70b-versatile''"

text \<open>\<open>s || d\<close> on an optional string: \<open>undefined\<close> and the empty string are falsy.\<close>

definition stringOr :: "jsstring option \<Rightarrow> jsstring \<Rightarrow> jsstring" where
  "stringOr x d = (case x of None \<Rightarrow> d | Some s \<Rightarrow> if s = [] then d else s)"

text \<open>The two Thai messages of the catch clause: a prefix for the cause, and a fixed text.\<close>

definition cannotConnectPrefix :: jsstring where
  "cannotConnectPrefix =
    [0x0E44, 0x0E21, 0x0E48, 0x0E2A, 0x0E32, 0x0E21, 0x0E32, 0x0E23, 0x0E16, 0x0E40, 0x0E0A,
     0x0E37, 0x0E48, 0x0E2D, 0x0E21, 0x0E15, 0x0E48, 0x0E2D, 0x0E01, 0x0E31, 0x0E1A, 0x0020,
     0x0041, 0x0049, 0x0020, 0x0E44, 0x0E14, 0x0E49, 0x003A, 0x0020]"

definition connectionFailed :: jsstring where
  "connectionFailed =
    [0x0E40, 0x0E01, 0x0E34, 0x0E14, 0x0E02, 0x0E49, 0x0E2D, 0x0E1C, 0x0E34, 0x0E14, 0x0E1E,
     0x0E25, 0x0E32, 0x0E14, 0x0E43, 0x0E19, 0x0E01, 0x0E32, 0x0E23, 0x0E40, 0x0E0A, 0x0E37,
     0x0E48, 0x0E2D, 0x0E21, 0x0E15, 0x0E48, 0x0E2D, 0x0E01, 0x0E31, 0x0E1A, 0x0020, 0x0041,
     0x0049]"

text \<open>
  The body of the \<open>try\<close> block of \<open>generateResponse\<close>:
  \<^verbatim>\<open>
  const { temperature = 0.3, maxTokens = 1000, model = this.DEFAULT_MODEL } = options;
  const response = await fetch(..., { body: JSON.stringify({ model, messages, temperature,
                                       max_tokens: maxTokens, stream: false }) });
  if (!response.ok) {
    const errorData = await response.json().catch(() => ({}));
    throw new Error(`Groq API error: ${response.status} - ${errorData.error?.message
                                                             || response.statusText}`);
  }
  const data: GroqResponse = await response.json();
  if (!data.choices || data.choices.length === 0) {
    throw new Error('No response generated from Groq API');
  }
  return data.choices[0].message.content.trim();
  \<close>
\<close>

definition generateResponse_try ::
  "env \<Rightarrow> world \<Rightarrow> groq_message list \<Rightarrow> groq_options \<Rightarrow> (js_thrown + jsstring) \<times> world" where
  "generateResponse_try env w msgs options =
     (let request =
            \<lparr>groq_request.model =
               (case groq_options.model options of None \<Rightarrow> DEFAULT_MODEL | Some m \<Rightarrow> m),
             messages = msgs,
             temperature =
               (case groq_options.temperature options of None \<Rightarrow> 0.3 | Some t \<Rightarrow> t),
             max_tokens = (case maxTokens options of None \<Rightarrow> 1000 | Some n \<Rightarrow> n),
             stream = False\<rparr>;
          w1 = record_event (FetchCall request) w
      in case fetch env w request of
           Inl e \<Rightarrow> (Inl e, w1)
         | Inr response \<Rightarrow>
             if \<not> ok response then
               let errorData =
                     (case json response of
                        Inl _ \<Rightarrow> \<lparr>error_message = None, choices = None\<rparr>
                      | Inr d \<Rightarrow> d)
               in (Inl (Error (ascii ''Groq API error: '' @ numberToString (int (status response))
                         @ ascii '' - ''
                         @ stringOr (error_message errorData) (statusText response))), w1)
             else
               (case json response of
                  Inl e \<Rightarrow> (Inl e, w1)
                | Inr d \<Rightarrow>
                    (case choices d of
                       None \<Rightarrow> (Inl (Error (ascii ''No response generated from Groq API'')), w1)
                     | Some cs \<Rightarrow>
                         (case cs of
                            [] \<Rightarrow> (Inl (Error (ascii ''No response generated from Groq API'')), w1)
                          | c # _ \<Rightarrow> (Inr (trim c), w1)))))"

text \<open>
  \<^verbatim>\<open>
  } catch (error) {
    console.error('Error calling Groq API:', error);
    throw new Error(error instanceof Error ? `<cannot connect>: ${error.message}`
                                           : '<connection failed>');
  }
  \<close>
\<close>

definition generateResponse ::
  "env \<Rightarrow> world \<Rightarrow> groq_message list \<Rightarrow> groq_options \<Rightarrow> (js_thrown + jsstring) \<times> world" where
  "generateResponse env w msgs options =
     (case generateResponse_try env w msgs options of
        (Inr text, w1) \<Rightarrow> (Inr text, w1)
      | (Inl e, w1) \<Rightarrow>
          (Inl (Error (case e of Error m \<Rightarrow> cannotConnectPrefix @ m | NonError \<Rightarrow> connectionFailed)),
           consoleError (ascii ''Error calling Groq API:'') (Thrown e) w1))"

section \<open>QAService\<close>

record QARequest =
  question :: jsstring
  bookId :: jsstring
  sessionId :: "jsstring option"
  userId :: jsstring

record source =
  content :: jsstring
  pageNumber :: int
  section' :: "jsstring option"
  confidence :: real

record QAResponse =
  answer :: jsstring
  sources :: "source list"
  sessionId :: jsstring

subsection \<open>createChatSession\<close>

text \<open>
  \<^verbatim>\<open>
  const sessionTitle = firstQuestion.length > 50
    ? firstQuestion.substring(0, 50) + '...'
    : firstQuestion;
  \<close>
\<close>

definition sessionTitle :: "jsstring \<Rightarrow> jsstring" where
  "sessionTitle firstQuestion =
     (if length firstQuestion > 50 then substring0 50 firstQuestion @ ascii ''...''
      else firstQuestion)"

text \<open>
  Reading \<open>data.id\<close> when \<open>data\<close> is \<open>null\<close> throws a \<open>TypeError\<close>; its message is
  the engine's.
\<close>

definition nullDataError :: js_thrown where
  "nullDataError = Error (ascii ''Cannot read properties of null (reading 'id')'')"

text \<open>
  \<^verbatim>\<open>
  const { data, error } = await supabase.from('chat_sessions')
    .insert({ user_id: userId, book_id: bookId, title: sessionTitle }).select('id').single();
  if (error) { throw new Error(`Failed to create chat session: ${error.message}`); }
  return data.id;
  \<close>
\<close>

definition createChatSession ::
  "env \<Rightarrow> world \<Rightarrow> jsstring \<Rightarrow> jsstring \<Rightarrow> jsstring \<Rightarrow> (js_thrown + jsstring) \<times> world" where
  "createChatSession env w uid bid firstQuestion =
     (case storeInsertSession env w uid bid (sessionTitle firstQuestion) of
        (res, w1) \<Rightarrow>
          (case error res of
             Some e \<Rightarrow> (Inl (Error (ascii ''Failed to create chat session: '' @ message e)), w1)
           | None \<Rightarrow>
               (case data res of
                  None \<Rightarrow> (Inl nullDataError, w1)
                | Some new \<Rightarrow> (Inr new, w1))))"

subsection \<open>generateContextualAnswer\<close>

text \<open>
  The system prompt is a template with one hole, \<open>${context}\<close>: the persona, the
  answering rules and the fallback phrase come before the hole, a closing reminder after.
\<close>

text \<open>
  The text before the hole, section by section: the persona (0), role and duty (1), the
  answering principles (2), the answer format (3), examples of polite phrasing (4), the
  prohibitions (5), the fallback phrase for missing information (6) and the heading of
  the book content (7).
\<close>

definition systemPromptSection0 :: jsstring where
  "systemPromptSection0 =
    [
     0x0E04, 0x0E38, 0x0E13, 0x0E40, 0x0E1B, 0x0E47, 0x0E19, 0x0020, 0x0041, 0x0049, 0x0020,
     0x0E1C, 0x0E39, 0x0E49, 0x0E0A, 0x0E48, 0x0E27, 0x0E22, 0x0E01, 0x0E32, 0x0E23, 0x0E40,
     0x0E23, 0x0E35, 0x0E22, 0x0E19, 0x0E23, 0x0E39, 0x0E49, 0x0E17, 0x0E35, 0x0E48, 0x0E40,
     0x0E0A, 0x0E35, 0x0E48, 0x0E22, 0x0E27, 0x0E0A, 0x0E32, 0x0E0D, 0x0E43, 0x0E19, 0x0E01,
     0x0E32, 0x0E23, 0x0E15, 0x0E2D, 0x0E1A, 0x0E04, 0x0E33, 0x0E16, 0x0E32, 0x0E21, 0x0E08,
     0x0E32, 0x0E01, 0x0E40, 0x0E19, 0x0E37, 0x0E49, 0x0E2D, 0x0E2B, 0x0E32, 0x0E2B, 0x0E19,
     0x0E31, 0x0E07, 0x0E2A, 0x0E37, 0x0E2D, 0x0E01, 0x0E32, 0x0E23, 0x0E28, 0x0E36, 0x0E01,
     0x0E29, 0x0E32]"

definition systemPromptSection1 :: jsstring where
  "systemPromptSection1 =
    [
     0x000A, 0x000A, 0x0023, 0x0023, 0x0020, 0x0E1A, 0x0E17, 0x0E1A, 0x0E32, 0x0E17, 0x0E41,
     0x0E25, 0x0E30, 0x0E2B, 0x0E19, 0x0E49, 0x0E32, 0x0E17, 0x0E35, 0x0E48, 0x0E02, 0x0E2D,
     0x0E07, 0x0E04, 0x0E38, 0x0E13, 0x003A, 0x000A, 0x0E04, 0x0E38, 0x0E13, 0x0E40, 0x0E1B,
     0x0E47, 0x0E19, 0x0E04, 0x0E23, 0x0E39, 0x0E1C, 0x0E39, 0x0E49, 0x0E0A, 0x0E48, 0x0E27,
     0x0E22, 0x0E17, 0x0E35, 0x0E48, 0x0E2D, 0x0E14, 0x0E17, 0x0E19, 0x0020, 0x0E40, 0x0E02,
     0x0E49, 0x0E32, 0x0E43, 0x0E08, 0x0020, 0x0E41, 0x0E25, 0x0E30, 0x0E40, 0x0E1B, 0x0E47,
     0x0E19, 0x0E21, 0x0E34, 0x0E15, 0x0E23, 0x0E01, 0x0E31, 0x0E1A, 0x0E19, 0x0E31, 0x0E01,
     0x0E40, 0x0E23, 0x0E35, 0x0E22, 0x0E19, 0x0020, 0x0E21, 0x0E35, 0x0E04, 0x0E27, 0x0E32,
     0x0E21, 0x0E40, 0x0E0A, 0x0E35, 0x0E48, 0x0E22, 0x0E27, 0x0E0A, 0x0E32, 0x0E0D, 0x0E43,
     0x0E19, 0x0E01, 0x0E32, 0x0E23, 0x0E2D, 0x0E18, 0x0E34, 0x0E1A, 0x0E32, 0x0E22, 0x0E40,
     0x0E19, 0x0E37, 0x0E49, 0x0E2D, 0x0E2B, 0x0E32, 0x0E43, 0x0E2B, 0x0E49, 0x0E40, 0x0E02,
     0x0E49, 0x0E32, 0x0E43, 0x0E08, 0x0E07, 0x0E48, 0x0E32, 0x0E22]"

definition systemPromptSection2 :: jsstring where
  "systemPromptSection2 =
    [
     0x000A, 0x000A, 0x0023, 0x0023, 0x0020, 0x0E2B, 0x0E25, 0x0E31, 0x0E01, 0x0E01, 0x0E32,
     0x0E23, 0x0E15, 0x0E2D, 0x0E1A, 0x0E04, 0x0E33, 0x0E16, 0x0E32, 0x0E21, 0x003A, 0x000A,
     0x0031, 0x002E, 0x0020, 0x002A, 0x002A, 0x0E43, 0x0E0A, 0x0E49, 0x0E40, 0x0E09, 0x0E1E,
     0x0E32, 0x0E30, 0x0E40, 0x0E19, 0x0E37, 0x0E49, 0x0E2D, 0x0E2B, 0x0E32, 0x0E17, 0x0E35,
     0x0E48, 0x0E43, 0x0E2B, 0x0E49, 0x0E21, 0x0E32, 0x002A, 0x002A, 0x003A, 0x0020, 0x0E15,
     0x0E2D, 0x0E1A, 0x0E04, 0x0E33, 0x0E16, 0x0E32, 0x0E21, 0x0E42, 0x0E14, 0x0E22, 0x0E2D,
     0x0E34, 0x0E07, 0x0E08, 0x0E32, 0x0E01, 0x0E40, 0x0E19, 0x0E37, 0x0E49, 0x0E2D, 0x0E2B,
     0x0E32, 0x0E43, 0x0E19, 0x0E2B, 0x0E19, 0x0E31, 0x0E07, 0x0E2A, 0x0E37, 0x0E2D, 0x0E40,
     0x0E17, 0x0E48, 0x0E32, 0x0E19, 0x0E31, 0x0E49, 0x0E19, 0x0020, 0x0E2B, 0x0E49, 0x0E32,
     0x0E21, 0x0E41, 0x0E15, 0x0E48, 0x0E07, 0x0E40, 0x0E15, 0x0E34, 0x0E21, 0x0E02, 0x0E49,
     0x0E2D, 0x0E21, 0x0E39, 0x0E25, 0x0E08, 0x0E32, 0x0E01, 0x0E20, 0x0E32, 0x0E22, 0x0E19,
     0x0E2D, 0x0E01, 0x000A, 0x0032, 0x002E, 0x0020, 0x002A, 0x002A, 0x0E20, 0x0E32, 0x0E29,
     0x0E32, 0x0E44, 0x0E17, 0x0E22, 0x0E17, 0x0E35, 0x0E48, 0x0E40, 0x0E02, 0x0E49, 0x0E32,
     0x0E43, 0x0E08, 0x0E07, 0x0E48, 0x0E32, 0x0E22, 0x002A, 0x002A, 0x003A, 0x0020, 0x0E43,
     0x0E0A, 0x0E49, 0x0E20, 0x0E32, 0x0E29, 0x0E32, 0x0E44, 0x0E17, 0x0E22, 0x0E17, 0x0E35,
     0x0E48, 0x0E0A, 0x0E31, 0x0E14, 0x0E40, 0x0E08, 0x0E19, 0x0020, 0x0E40, 0x0E2B, 0x0E21,
     0x0E32, 0x0E30, 0x0E2A, 0x0E33, 0x0E2B, 0x0E23, 0x0E31, 0x0E1A, 0x0E19, 0x0E31, 0x0E01,
     0x0E40, 0x0E23, 0x0E35, 0x0E22, 0x0E19, 0x0E23, 0x0E30, 0x0E14, 0x0E31, 0x0E1A, 0x0E21,
     0x0E31, 0x0E18, 0x0E22, 0x0E21, 0x0E28, 0x0E36, 0x0E01, 0x0E29, 0x0E32, 0x000A, 0x0033,
     0x002E, 0x0020, 0x002A, 0x002A, 0x0E42, 0x0E04, 0x0E23, 0x0E07, 0x0E2A, 0x0E23, 0x0E49,
     0x0E32, 0x0E07, 0x0E17, 0x0E35, 0x0E48, 0x0E0A, 0x0E31, 0x0E14, 0x0E40, 0x0E08, 0x0E19,
     0x002A, 0x002A, 0x003A, 0x0020, 0x0E08, 0x0E31, 0x0E14, 0x0E40, 0x0E23, 0x0E35, 0x0E22,
     0x0E07, 0x0E04, 0x0E33, 0x0E15, 0x0E2D, 0x0E1A, 0x0E43, 0x0E2B, 0x0E49, 0x0E21, 0x0E35,
     0x0E2B, 0x0E31, 0x0E27, 0x0E02, 0x0E49, 0x0E2D, 0x0020, 0x0E02, 0x0E49, 0x0E2D, 0x0E22,
     0x0E48, 0x0E2D, 0x0E22, 0x0020, 0x0E41, 0x0E25, 0x0E30, 0x0E15, 0x0E31, 0x0E27, 0x0E2D,
     0x0E22, 0x0E48, 0x0E32, 0x0E07, 0x0E1B, 0x0E23, 0x0E30, 0x0E01, 0x0E2D, 0x0E1A, 0x000A,
     0x0034, 0x002E, 0x0020, 0x002A, 0x002A, 0x0E15, 0x0E2D, 0x0E1A, 0x0E15, 0x0E23, 0x0E07,
     0x0E1B, 0x0E23, 0x0E30, 0x0E40, 0x0E14, 0x0E47, 0x0E19, 0x002A, 0x002A, 0x003A, 0x0020,
     0x0E15, 0x0E2D, 0x0E1A, 0x0E40, 0x0E09, 0x0E1E, 0x0E32, 0x0E30, 0x0E2A, 0x0E34, 0x0E48,
     0x0E07, 0x0E17, 0x0E35, 0x0E48, 0x0E16, 0x0E39, 0x0E01, 0x0E16, 0x0E32, 0x0E21, 0x0020,
     0x0E44, 0x0E21, 0x0E48, 0x0E02, 0x0E22, 0x0E32, 0x0E22, 0x0E04, 0x0E27, 0x0E32, 0x0E21,
     0x0E19, 0x0E2D, 0x0E01, 0x0E40, 0x0E23, 0x0E37, 0x0E48, 0x0E2D, 0x0E07, 0x000A, 0x0035,
     0x002E, 0x0020, 0x002A, 0x002A, 0x0E43, 0x0E2B, 0x0E49, 0x0E01, 0x0E33, 0x0E25, 0x0E31,
     0x0E07, 0x0E43, 0x0E08, 0x002A, 0x002A, 0x003A, 0x0020, 0x0E43, 0x0E0A, 0x0E49, 0x0E19,
     0x0E49, 0x0E33, 0x0E40, 0x0E2A, 0x0E35, 0x0E22, 0x0E07, 0x0E17, 0x0E35, 0x0E48, 0x0E43,
     0x0E2B, 0x0E49, 0x0E01, 0x0E33, 0x0E25, 0x0E31, 0x0E07, 0x0E43, 0x0E08, 0x0E41, 0x0E25,
     0x0E30, 0x0E2A, 0x0E23, 0x0E49, 0x0E32, 0x0E07, 0x0E41, 0x0E23, 0x0E07, 0x0E1A, 0x0E31,
     0x0E19, 0x0E14, 0x0E32, 0x0E25, 0x0E43, 0x0E08, 0x0E43, 0x0E19, 0x0E01, 0x0E32, 0x0E23,
     0x0E40, 0x0E23, 0x0E35, 0x0E22, 0x0E19, 0x0E23, 0x0E39, 0x0E49, 0x000A, 0x0036, 0x002E,
     0x0020, 0x002A, 0x002A, 0x0E43, 0x0E0A, 0x0E49, 0x0E04, 0x0E33, 0x0E2A, 0x0E38, 0x0E20,
     0x0E32, 0x0E1E, 0x002A, 0x002A, 0x003A, 0x0020, 0x0E43, 0x0E0A, 0x0E49, 0x0E04, 0x0E33,
     0x0E27, 0x0E48, 0x0E32, 0x0020, 0x0022, 0x0E04, 0x0E23, 0x0E31, 0x0E1A, 0x002F, 0x0E04,
     0x0E48, 0x0E30, 0x0022, 0x0020, 0x0E43, 0x0E19, 0x0E01, 0x0E32, 0x0E23, 0x0E15, 0x0E2D,
     0x0E1A, 0x0E17, 0x0E38, 0x0E01, 0x0E04, 0x0E23, 0x0E31, 0x0E49, 0x0E07, 0x0020, 0x0E41,
     0x0E25, 0x0E30, 0x0E40, 0x0E23, 0x0E35, 0x0E22, 0x0E01, 0x0E1C, 0x0E39, 0x0E49, 0x0E16,
     0x0E32, 0x0E21, 0x0E27, 0x0E48, 0x0E32, 0x0020, 0x0022, 0x0E19, 0x0E31, 0x0E01, 0x0E40,
     0x0E23, 0x0E35, 0x0E22, 0x0E19, 0x0022, 0x0020, 0x0E2B, 0x0E23, 0x0E37, 0x0E2D, 0x0020,
     0x0022, 0x0E19, 0x0E49, 0x0E2D, 0x0E07, 0x0022]"

definition systemPromptSection3 :: jsstring where
  "systemPromptSection3 =
    [
     0x000A, 0x000A, 0x0023, 0x0023, 0x0020, 0x0E23, 0x0E39, 0x0E1B, 0x0E41, 0x0E1A, 0x0E1A,
     0x0E01, 0x0E32, 0x0E23, 0x0E15, 0x0E2D, 0x0E1A, 0x003A, 0x000A, 0x002D, 0x0020, 0x0E40,
     0x0E23, 0x0E34, 0x0E48, 0x0E21, 0x0E15, 0x0E49, 0x0E19, 0x0E14, 0x0E49, 0x0E27, 0x0E22,
     0x0E01, 0x0E32, 0x0E23, 0x0E17, 0x0E31, 0x0E01, 0x0E17, 0x0E32, 0x0E22, 0x0E41, 0x0E25,
     0x0E30, 0x0E41, 0x0E2A, 0x0E14, 0x0E07, 0x0E04, 0x0E27, 0x0E32, 0x0E21, 0x0E40, 0x0E02,
     0x0E49, 0x0E32, 0x0E43, 0x0E08, 0x0E43, 0x0E19, 0x0E04, 0x0E33, 0x0E16, 0x0E32, 0x0E21,
     0x0020, 0x0028, 0x0E43, 0x0E0A, 0x0E49, 0x0E04, 0x0E23, 0x0E31, 0x0E1A, 0x002F, 0x0E04,
     0x0E48, 0x0E30, 0x0029, 0x000A, 0x002D, 0x0020, 0x0E2D, 0x0E18, 0x0E34, 0x0E1A, 0x0E32,
     0x0E22, 0x0E41, 0x0E19, 0x0E27, 0x0E04, 0x0E34, 0x0E14, 0x0E2B, 0x0E25, 0x0E31, 0x0E01,
     0x0E2D, 0x0E22, 0x0E48, 0x0E32, 0x0E07, 0x0E0A, 0x0E31, 0x0E14, 0x0E40, 0x0E08, 0x0E19,
     0x000A, 0x002D, 0x0020, 0x0E43, 0x0E2B, 0x0E49, 0x0E15, 0x0E31, 0x0E27, 0x0E2D, 0x0E22,
     0x0E48, 0x0E32, 0x0E07, 0x0E08, 0x0E32, 0x0E01, 0x0E40, 0x0E19, 0x0E37, 0x0E49, 0x0E2D,
     0x0E2B, 0x0E32, 0x0E2B, 0x0E19, 0x0E31, 0x0E07, 0x0E2A, 0x0E37, 0x0E2D, 0x0020, 0x0028,
     0x0E16, 0x0E49, 0x0E32, 0x0E21, 0x0E35, 0x0029, 0x000A, 0x002D, 0x0020, 0x0E2A, 0x0E23,
     0x0E38, 0x0E1B, 0x0E1B, 0x0E23, 0x0E30, 0x0E40, 0x0E14, 0x0E47, 0x0E19, 0x0E2A, 0x0E33,
     0x0E04, 0x0E31, 0x0E0D, 0x000A, 0x002D, 0x0020, 0x0E1B, 0x0E34, 0x0E14, 0x0E17, 0x0E49,
     0x0E32, 0x0E22, 0x0E14, 0x0E49, 0x0E27, 0x0E22, 0x0E01, 0x0E32, 0x0E23, 0x0E2A, 0x0E2D,
     0x0E1A, 0x0E16, 0x0E32, 0x0E21, 0x0E27, 0x0E48, 0x0E32, 0x0E21, 0x0E35, 0x0E04, 0x0E33,
     0x0E16, 0x0E32, 0x0E21, 0x0E40, 0x0E1E, 0x0E34, 0x0E48, 0x0E21, 0x0E40, 0x0E15, 0x0E34,
     0x0E21, 0x0E2B, 0x0E23, 0x0E37, 0x0E2D, 0x0E44, 0x0E21, 0x0E48, 0x0020, 0x0028, 0x0E43,
     0x0E0A, 0x0E49, 0x0E04, 0x0E23, 0x0E31, 0x0E1A, 0x002F, 0x0E04, 0x0E48, 0x0E30, 0x0029]"

definition systemPromptSection4 :: jsstring where
  "systemPromptSection4 =
    [
     0x000A, 0x000A, 0x0023, 0x0023, 0x0020, 0x0E15, 0x0E31, 0x0E27, 0x0E2D, 0x0E22, 0x0E48,
     0x0E32, 0x0E07, 0x0E01, 0x0E32, 0x0E23, 0x0E43, 0x0E0A, 0x0E49, 0x0E04, 0x0E33, 0x0E2A,
     0x0E38, 0x0E20, 0x0E32, 0x0E1E, 0x003A, 0x000A, 0x002D, 0x0020, 0x0022, 0x0E04, 0x0E23,
     0x0E39, 0x0E40, 0x0E02, 0x0E49, 0x0E32, 0x0E43, 0x0E08, 0x0E04, 0x0E33, 0x0E16, 0x0E32,
     0x0E21, 0x0E02, 0x0E2D, 0x0E07, 0x0E19, 0x0E31, 0x0E01, 0x0E40, 0x0E23, 0x0E35, 0x0E22,
     0x0E19, 0x0E41, 0x0E25, 0x0E49, 0x0E27, 0x0E19, 0x0E30, 0x0E04, 0x0E23, 0x0E31, 0x0E1A,
     0x002F, 0x0E04, 0x0E48, 0x0E30, 0x0022, 0x000A, 0x002D, 0x0020, 0x0022, 0x0E08, 0x0E32,
     0x0E01, 0x0E40, 0x0E19, 0x0E37, 0x0E49, 0x0E2D, 0x0E2B, 0x0E32, 0x0E43, 0x0E19, 0x0E2B,
     0x0E19, 0x0E31, 0x0E07, 0x0E2A, 0x0E37, 0x0E2D, 0x0020, 0x0E2A, 0x0E32, 0x0E21, 0x0E32,
     0x0E23, 0x0E16, 0x0E2D, 0x0E18, 0x0E34, 0x0E1A, 0x0E32, 0x0E22, 0x0E44, 0x0E14, 0x0E49,
     0x0E14, 0x0E31, 0x0E07, 0x0E19, 0x0E35, 0x0E49, 0x0E04, 0x0E23, 0x0E31, 0x0E1A, 0x002F,
     0x0E04, 0x0E48, 0x0E30, 0x0022, 0x000A, 0x002D, 0x0020, 0x0022, 0x0E2B, 0x0E27, 0x0E31,
     0x0E07, 0x0E27, 0x0E48, 0x0E32, 0x0E04, 0x0E33, 0x0E2D, 0x0E18, 0x0E34, 0x0E1A, 0x0E32,
     0x0E22, 0x0E19, 0x0E35, 0x0E49, 0x0E08, 0x0E30, 0x0E0A, 0x0E48, 0x0E27, 0x0E22, 0x0E43,
     0x0E2B, 0x0E49, 0x0E40, 0x0E02, 0x0E49, 0x0E32, 0x0E43, 0x0E08, 0x0E21, 0x0E32, 0x0E01,
     0x0E02, 0x0E36, 0x0E49, 0x0E19, 0x0E19, 0x0E30, 0x0E04, 0x0E23, 0x0E31, 0x0E1A, 0x002F,
     0x0E04, 0x0E48, 0x0E30, 0x0022, 0x000A, 0x002D, 0x0020, 0x0022, 0x0E21, 0x0E35, 0x0E04,
     0x0E33, 0x0E16, 0x0E32, 0x0E21, 0x0E2D, 0x0E37, 0x0E48, 0x0E19, 0x0E2D, 0x0E35, 0x0E01,
     0x0E44, 0x0E2B, 0x0E21, 0x0E04, 0x0E23, 0x0E31, 0x0E1A, 0x002F, 0x0E04, 0x0E48, 0x0E30,
     0x003F, 0x0022]"

definition systemPromptSection5 :: jsstring where
  "systemPromptSection5 =
    [
     0x000A, 0x000A, 0x0023, 0x0023, 0x0020, 0x0E2A, 0x0E34, 0x0E48, 0x0E07, 0x0E17, 0x0E35,
     0x0E48, 0x0E2B, 0x0E49, 0x0E32, 0x0E21, 0x0E17, 0x0E33, 0x003A, 0x000A, 0x274C, 0x0020,
     0x0E2B, 0x0E49, 0x0E32, 0x0E21, 0x0E41, 0x0E15, 0x0E48, 0x0E07, 0x0E02, 0x0E49, 0x0E2D,
     0x0E21, 0x0E39, 0x0E25, 0x0E17, 0x0E35, 0x0E48, 0x0E44, 0x0E21, 0x0E48, 0x0E21, 0x0E35,
     0x0E43, 0x0E19, 0x0E2B, 0x0E19, 0x0E31, 0x0E07, 0x0E2A, 0x0E37, 0x0E2D, 0x000A, 0x274C,
     0x0020, 0x0E2B, 0x0E49, 0x0E32, 0x0E21, 0x0E43, 0x0E0A, 0x0E49, 0x0E20, 0x0E32, 0x0E29,
     0x0E32, 0x0E17, 0x0E35, 0x0E48, 0x0E0B, 0x0E31, 0x0E1A, 0x0E0B, 0x0E49, 0x0E2D, 0x0E19,
     0x0E40, 0x0E01, 0x0E34, 0x0E19, 0x0E44, 0x0E1B, 0x000A, 0x274C, 0x0020, 0x0E2B, 0x0E49,
     0x0E32, 0x0E21, 0x0E15, 0x0E2D, 0x0E1A, 0x0E19, 0x0E2D, 0x0E01, 0x0E40, 0x0E23, 0x0E37,
     0x0E48, 0x0E2D, 0x0E07, 0x0E2B, 0x0E23, 0x0E37, 0x0E2D, 0x0E02, 0x0E22, 0x0E32, 0x0E22,
     0x0E04, 0x0E27, 0x0E32, 0x0E21, 0x0E21, 0x0E32, 0x0E01, 0x0E40, 0x0E01, 0x0E34, 0x0E19,
     0x0E44, 0x0E1B, 0x000A, 0x274C, 0x0020, 0x0E2B, 0x0E49, 0x0E32, 0x0E21, 0x0E43, 0x0E0A,
     0x0E49, 0x0E19, 0x0E49, 0x0E33, 0x0E40, 0x0E2A, 0x0E35, 0x0E22, 0x0E07, 0x0E17, 0x0E35,
     0x0E48, 0x0E40, 0x0E1B, 0x0E47, 0x0E19, 0x0E17, 0x0E32, 0x0E07, 0x0E01, 0x0E32, 0x0E23,
     0x0E08, 0x0E19, 0x0E40, 0x0E01, 0x0E34, 0x0E19, 0x0E44, 0x0E1B, 0x000A, 0x274C, 0x0020,
     0x0E2B, 0x0E49, 0x0E32, 0x0E21, 0x0E25, 0x0E37, 0x0E21, 0x0E43, 0x0E0A, 0x0E49, 0x0E04,
     0x0E33, 0x0E27, 0x0E48, 0x0E32, 0x0020, 0x0022, 0x0E04, 0x0E23, 0x0E31, 0x0E1A, 0x002F,
     0x0E04, 0x0E48, 0x0E30, 0x0022, 0x0020, 0x0E43, 0x0E19, 0x0E01, 0x0E32, 0x0E23, 0x0E15,
     0x0E2D, 0x0E1A, 0x000A, 0x274C, 0x0020, 0x0E2B, 0x0E49, 0x0E32, 0x0E21, 0x0E43, 0x0E2B,
     0x0E49, 0x0E02, 0x0E49, 0x0E2D, 0x0E21, 0x0E39, 0x0E25, 0x0E17, 0x0E35, 0x0E48, 0x0E2D,
     0x0E32, 0x0E08, 0x0E40, 0x0E1B, 0x0E47, 0x0E19, 0x0E2D, 0x0E31, 0x0E19, 0x0E15, 0x0E23,
     0x0E32, 0x0E22, 0x0E2B, 0x0E23, 0x0E37, 0x0E2D, 0x0E44, 0x0E21, 0x0E48, 0x0E40, 0x0E2B,
     0x0E21, 0x0E32, 0x0E30, 0x0E2A, 0x0E21]"

definition systemPromptSection6 :: jsstring where
  "systemPromptSection6 =
    [
     0x000A, 0x000A, 0x0023, 0x0023, 0x0020, 0x0E40, 0x0E21, 0x0E37, 0x0E48, 0x0E2D, 0x0E44,
     0x0E21, 0x0E48, 0x0E1E, 0x0E1A, 0x0E02, 0x0E49, 0x0E2D, 0x0E21, 0x0E39, 0x0E25, 0x003A,
     0x000A, 0x0E2B, 0x0E32, 0x0E01, 0x0E44, 0x0E21, 0x0E48, 0x0E1E, 0x0E1A, 0x0E02, 0x0E49,
     0x0E2D, 0x0E21, 0x0E39, 0x0E25, 0x0E17, 0x0E35, 0x0E48, 0x0E40, 0x0E01, 0x0E35, 0x0E48,
     0x0E22, 0x0E27, 0x0E02, 0x0E49, 0x0E2D, 0x0E07, 0x0E43, 0x0E19, 0x0E2B, 0x0E19, 0x0E31,
     0x0E07, 0x0E2A, 0x0E37, 0x0E2D, 0x0020, 0x0E43, 0x0E2B, 0x0E49, 0x0E15, 0x0E2D, 0x0E1A,
     0x0E27, 0x0E48, 0x0E32, 0x003A, 0x000A, 0x0022, 0x0E02, 0x0E2D, 0x0E2D, 0x0E20, 0x0E31,
     0x0E22, 0x0E19, 0x0E30, 0x0E04, 0x0E23, 0x0E31, 0x0E1A, 0x002F, 0x0E04, 0x0E48, 0x0E30,
     0x0020, 0x0E43, 0x0E19, 0x0E2B, 0x0E19, 0x0E31, 0x0E07, 0x0E2A, 0x0E37, 0x0E2D, 0x0E40,
     0x0E25, 0x0E48, 0x0E21, 0x0E19, 0x0E35, 0x0E49, 0x0E44, 0x0E21, 0x0E48, 0x0E21, 0x0E35,
     0x0E02, 0x0E49, 0x0E2D, 0x0E21, 0x0E39, 0x0E25, 0x0E40, 0x0E01, 0x0E35, 0x0E48, 0x0E22,
     0x0E27, 0x0E01, 0x0E31, 0x0E1A, 0x0E40, 0x0E23, 0x0E37, 0x0E48, 0x0E2D, 0x0E07, 0x0E17,
     0x0E35, 0x0E48, 0x0E19, 0x0E31, 0x0E01, 0x0E40, 0x0E23, 0x0E35, 0x0E22, 0x0E19, 0x0E16,
     0x0E32, 0x0E21, 0x0E42, 0x0E14, 0x0E22, 0x0E15, 0x0E23, 0x0E07, 0x0020, 0x0E41, 0x0E15,
     0x0E48, 0x0E16, 0x0E49, 0x0E32, 0x0E21, 0x0E35, 0x0E04, 0x0E33, 0x0E16, 0x0E32, 0x0E21,
     0x0E2D, 0x0E37, 0x0E48, 0x0E19, 0x0E40, 0x0E01, 0x0E35, 0x0E48, 0x0E22, 0x0E27, 0x0E01,
     0x0E31, 0x0E1A, 0x0E40, 0x0E19, 0x0E37, 0x0E49, 0x0E2D, 0x0E2B, 0x0E32, 0x0E43, 0x0E19,
     0x0E2B, 0x0E19, 0x0E31, 0x0E07, 0x0E2A, 0x0E37, 0x0E2D, 0x0020, 0x0E04, 0x0E23, 0x0E39,
     0x0E22, 0x0E34, 0x0E19, 0x0E14, 0x0E35, 0x0E0A, 0x0E48, 0x0E27, 0x0E22, 0x0E2D, 0x0E18,
     0x0E34, 0x0E1A, 0x0E32, 0x0E22, 0x0E43, 0x0E2B, 0x0E49, 0x0E1F, 0x0E31, 0x0E07, 0x0E19,
     0x0E30, 0x0E04, 0x0E23, 0x0E31, 0x0E1A, 0x002F, 0x0E04, 0x0E48, 0x0E30, 0x0022]"

definition systemPromptSection7 :: jsstring where
  "systemPromptSection7 =
    [
     0x000A, 0x000A, 0x0023, 0x0023, 0x0020, 0x0E40, 0x0E19, 0x0E37, 0x0E49, 0x0E2D, 0x0E2B,
     0x0E32, 0x0E08, 0x0E32, 0x0E01, 0x0E2B, 0x0E19, 0x0E31, 0x0E07, 0x0E2A, 0x0E37, 0x0E2D,
     0x003A, 0x000A]"

definition systemPromptHead :: jsstring where
  "systemPromptHead =
     systemPromptSection0
       @ systemPromptSection1
       @ systemPromptSection2
       @ systemPromptSection3
       @ systemPromptSection4
       @ systemPromptSection5
       @ systemPromptSection6
       @ systemPromptSection7"

definition systemPromptTail :: jsstring where
  "systemPromptTail =
    [
     0x000A, 0x000A, 0x0E08, 0x0E33, 0x0E44, 0x0E27, 0x0E49, 0x003A, 0x0020, 0x0E04, 0x0E38,
     0x0E13, 0x0E40, 0x0E1B, 0x0E47, 0x0E19, 0x0E04, 0x0E23, 0x0E39, 0x0E17, 0x0E35, 0x0E48,
     0x0E43, 0x0E2A, 0x0E48, 0x0E43, 0x0E08, 0x0E19, 0x0E31, 0x0E01, 0x0E40, 0x0E23, 0x0E35,
     0x0E22, 0x0E19, 0x0020, 0x0E2D, 0x0E22, 0x0E32, 0x0E01, 0x0E43, 0x0E2B, 0x0E49, 0x0E19,
     0x0E31, 0x0E01, 0x0E40, 0x0E23, 0x0E35, 0x0E22, 0x0E19, 0x0E40, 0x0E02, 0x0E49, 0x0E32,
     0x0E43, 0x0E08, 0x0E41, 0x0E25, 0x0E30, 0x0E23, 0x0E31, 0x0E01, 0x0E01, 0x0E32, 0x0E23,
     0x0E40, 0x0E23, 0x0E35, 0x0E22, 0x0E19, 0x0E23, 0x0E39, 0x0E49, 0x0020, 0x0E15, 0x0E2D,
     0x0E1A, 0x0E14, 0x0E49, 0x0E27, 0x0E22, 0x0E04, 0x0E27, 0x0E32, 0x0E21, 0x0E2D, 0x0E14,
     0x0E17, 0x0E19, 0x0E41, 0x0E25, 0x0E30, 0x0E04, 0x0E27, 0x0E32, 0x0E21, 0x0E40, 0x0E02,
     0x0E49, 0x0E32, 0x0E43, 0x0E08, 0x0E40, 0x0E2A, 0x0E21, 0x0E2D, 0x0020, 0x0E41, 0x0E25,
     0x0E30, 0x0E2D, 0x0E22, 0x0E48, 0x0E32, 0x0E25, 0x0E37, 0x0E21, 0x0E43, 0x0E0A, 0x0E49,
     0x0E04, 0x0E33, 0x0E27, 0x0E48, 0x0E32, 0x0020, 0x0022, 0x0E04, 0x0E23, 0x0E31, 0x0E1A,
     0x002F, 0x0E04, 0x0E48, 0x0E30, 0x0022, 0x0020, 0x0E43, 0x0E19, 0x0E17, 0x0E38, 0x0E01,
     0x0E01, 0x0E32, 0x0E23, 0x0E15, 0x0E2D, 0x0E1A, 0x0E04, 0x0E23, 0x0E31, 0x0E1A]"

text \<open>The Thai label "question: " that precedes the question in the user message.\<close>

definition questionLabel :: jsstring where
  "questionLabel = [0x0E04, 0x0E33, 0x0E16, 0x0E32, 0x0E21, 0x003A, 0x0020]"

definition generateContextualAnswer ::
  "env \<Rightarrow> world \<Rightarrow> jsstring \<Rightarrow> jsstring \<Rightarrow> chunk list \<Rightarrow> (js_thrown + jsstring) \<times> world" where
  "generateContextualAnswer env w q context relevantChunks =
     (let systemPrompt = systemPromptHead @ context @ systemPromptTail;
          msgs = [\<lparr>groq_message.role = GroqSystem, content = systemPrompt\<rparr>,
                  \<lparr>groq_message.role = GroqUser, content = questionLabel @ q\<rparr>]
      in generateResponse env w msgs
           \<lparr>groq_options.temperature = Some 0.3, maxTokens = Some 1200,
             model = Some (ascii ''llama-3.1-70b-versatile'')\<rparr>)"

subsection \<open>saveChatMessage\<close>

text \<open>
  \<^verbatim>\<open>
  const { error } = await supabase.from('chat_messages')
    .insert({ session_id: sessionId, content, role, metadata });
  if (error) { console.error('Error saving chat message:', error); }
  \<close>
\<close>

definition saveChatMessage ::
  "env \<Rightarrow> world \<Rightarrow> jsstring \<Rightarrow> jsstring \<Rightarrow> chat_role \<Rightarrow> message_metadata option \<Rightarrow> world" where
  "saveChatMessage env w sid text r meta =
     (case storeInsertMessage env w sid text r meta of
        (res, w1) \<Rightarrow>
          (case error res of
             Some e \<Rightarrow> consoleError (ascii ''Error saving chat message:'') (StoreError e) w1
           | None \<Rightarrow> w1))"

subsection \<open>processQuestion\<close>

text \<open>The fixed Thai apology that \<open>processQuestion\<close> throws (74 code units).\<close>

definition processingFailed :: jsstring where
  "processingFailed =
    [0x0E02, 0x0E2D, 0x0E2D, 0x0E20, 0x0E31, 0x0E22, 0x0E04, 0x0E23, 0x0E31, 0x0E1A, 0x002F,
     0x0E04, 0x0E48, 0x0E30, 0x0020, 0x0E40, 0x0E01, 0x0E34, 0x0E14, 0x0E02, 0x0E49, 0x0E2D,
     0x0E1C, 0x0E34, 0x0E14, 0x0E1E, 0x0E25, 0x0E32, 0x0E14, 0x0E43, 0x0E19, 0x0E01, 0x0E32,
     0x0E23, 0x0E1B, 0x0E23, 0x0E30, 0x0E21, 0x0E27, 0x0E25, 0x0E1C, 0x0E25, 0x0E04, 0x0E33,
     0x0E16, 0x0E32, 0x0E21, 0x0020, 0x0E01, 0x0E23, 0x0E38, 0x0E13, 0x0E32, 0x0E25, 0x0E2D,
     0x0E07, 0x0E43, 0x0E2B, 0x0E21, 0x0E48, 0x0E2D, 0x0E35, 0x0E01, 0x0E04, 0x0E23, 0x0E31,
     0x0E49, 0x0E07, 0x0E19, 0x0E30, 0x0E04, 0x0E23, 0x0E31, 0x0E1A]"

text \<open>
  Step 2, \<open>request.sessionId || await this.createChatSession(...)\<close>: a session id that
  is \<open>undefined\<close> or the empty string is falsy.
\<close>

definition resolveSession ::
  "env \<Rightarrow> world \<Rightarrow> QARequest \<Rightarrow> (js_thrown + jsstring) \<times> world" where
  "resolveSession env w request =
     (case QARequest.sessionId request of
        None \<Rightarrow> createChatSession env w (userId request) (bookId request) (question request)
      | Some sid \<Rightarrow>
          if sid = [] then
            createChatSession env w (userId request) (bookId request) (question request)
          else (Inr sid, w))"

text \<open>
  Step 6, the callback of \<open>relevantChunks.map\<close>:
  \<^verbatim>\<open>
  chunk => ({ content: chunk.content.substring(0, 200) + '...',
              pageNumber: chunk.page_number,
              section: chunk.metadata?.section,
              confidence: chunk.similarity || 0.8 })
  \<close>
\<close>

definition formatSource :: "chunk \<Rightarrow> source" where
  "formatSource chunk =
     \<lparr>source.content = substring0 200 (chunk.content chunk) @ ascii ''...'',
      pageNumber = page_number chunk,
      section' = (case chunk.metadata chunk of None \<Rightarrow> None | Some m \<Rightarrow> chunk_metadata.section' m),
      confidence = numberOr (similarity chunk) 0.8\<rparr>"

text \<open>The body of the \<open>try\<close> block, steps 1 to 6.\<close>

definition processQuestion_try ::
  "env \<Rightarrow> world \<Rightarrow> QARequest \<Rightarrow> (js_thrown + QAResponse) \<times> world" where
  "processQuestion_try env w request =
     (let w1 = record_event (SearchCall (question request) (bookId request) 5) w in
      case searchSimilarContent env w (question request) (bookId request) 5 of
        Inl e \<Rightarrow> (Inl e, w1)
      | Inr relevantChunks \<Rightarrow>
          (case resolveSession env w1 request of
             (Inl e, w2) \<Rightarrow> (Inl e, w2)
           | (Inr sid, w2) \<Rightarrow>
               let context = buildContext relevantChunks in
               (case generateContextualAnswer env w2 (question request) context relevantChunks of
                  (Inl e, w3) \<Rightarrow> (Inl e, w3)
                | (Inr ans, w3) \<Rightarrow>
                    let w4 = saveChatMessage env w3 sid (question request) User None;
                        w5 = saveChatMessage env w4 sid ans Assistant
                               (Some \<lparr>message_metadata.sources = map chunk.content relevantChunks,
                                      confidence = calculateConfidence relevantChunks\<rparr>)
                    in (Inr \<lparr>answer = ans, sources = map formatSource relevantChunks,
                              sessionId = sid\<rparr>, w5))))"

text \<open>
  \<^verbatim>\<open>
  } catch (error) {
    console.error('Error processing question:', error);
    throw new Error(<processing failed>);
  }
  \<close>
\<close>

definition processQuestion ::
  "env \<Rightarrow> world \<Rightarrow> QARequest \<Rightarrow> (js_thrown + QAResponse) \<times> world" where
  "processQuestion env w request =
     (case processQuestion_try env w request of
        (Inr response, w1) \<Rightarrow> (Inr response, w1)
      | (Inl e, w1) \<Rightarrow>
          (Inl (Error processingFailed),
           consoleError (ascii ''Error processing question:'') (Thrown e) w1))"

subsection \<open>getChatHistory and getUserChatSessions\<close>

text \<open>
  \<^verbatim>\<open>
  const { data, error } = await supabase.from('chat_messages').select('*')
    .eq('session_id', sessionId).order('created_at', { ascending: true });
  if (error) { console.error('Error fetching chat history:', error); return []; }
  return data || [];
  \<close>
\<close>

definition getChatHistory :: "env \<Rightarrow> world \<Rightarrow> jsstring \<Rightarrow> message_row list \<times> world" where
  "getChatHistory env w sid =
     (case storeSelectMessages env w
             \<lparr>eqs = [(''session_id'', sid)], orderColumn = ''created_at'', ascending = True\<rparr> of
        (res, w1) \<Rightarrow>
          (case error res of
             Some e \<Rightarrow> ([], consoleError (ascii ''Error fetching chat history:'') (StoreError e) w1)
           | None \<Rightarrow> ((case data res of None \<Rightarrow> [] | Some rows \<Rightarrow> rows), w1)))"

text \<open>
  \<^verbatim>\<open>
  const { data, error } = await supabase.from('chat_sessions').select('*')
    .eq('user_id', userId).eq('book_id', bookId).order('updated_at', { ascending: false });
  if (error) { console.error('Error fetching chat sessions:', error); return []; }
  return data || [];
  \<close>
\<close>

definition getUserChatSessions ::
  "env \<Rightarrow> world \<Rightarrow> jsstring \<Rightarrow> jsstring \<Rightarrow> session_row list \<times> world" where
  "getUserChatSessions env w uid bid =
     (case storeSelectSessions env w
             \<lparr>eqs = [(''user_id'', uid), (''book_id'', bid)], orderColumn = ''updated_at'',
              ascending = False\<rparr> of
        (res, w1) \<Rightarrow>
          (case error res of
             Some e \<Rightarrow> ([], consoleError (ascii ''Error fetching chat sessions:'') (StoreError e) w1)
           | None \<Rightarrow> ((case data res of None \<Rightarrow> [] | Some rows \<Rightarrow> rows), w1)))"

section \<open>Observations on the trace\<close>

text \<open>Store calls on the session table, and inserts into the message table.\<close>

fun touchesSessions :: "event \<Rightarrow> bool" where
  "touchesSessions (StoreCall (InsertSession _ _ _)) = True"
| "touchesSessions (StoreCall (SelectSessions _)) = True"
| "touchesSessions _ = False"

fun isMessageInsert :: "event \<Rightarrow> bool" where
  "isMessageInsert (StoreCall (InsertMessage _ _ _ _)) = True"
| "isMessageInsert _ = False"

section \<open>Example inputs\<close>

definition passage :: "int \<Rightarrow> real option \<Rightarrow> chunk" where
  "passage page score =
     \<lparr>chunk.content = ascii ''Plants make sugar from light.'', page_number = page,
      metadata = Some \<lparr>chunk_metadata.section' = Some (ascii ''Biology'')\<rparr>,
      similarity = score\<rparr>"

definition emptyWorld :: world where
  "emptyWorld = \<lparr>chat_sessions = [], chat_messages = [], events = []\<rparr>"

text \<open>Two answers of the completion service: a completion, and a refusal with status 503.\<close>

definition completion :: http_response where
  "completion =
     \<lparr>ok = True, status = 200, statusText = ascii ''OK'',
      json = Inr \<lparr>error_message = None, choices = Some [ascii '' Sugar. '']\<rparr>\<rparr>"

definition unavailable :: http_response where
  "unavailable =
     \<lparr>ok = False, status = 503, statusText = ascii ''Service Unavailable'',
      json = Inr \<lparr>error_message = Some (ascii ''busy''), choices = None\<rparr>\<rparr>"

definition denied :: pg_error where
  "denied = PgError (ascii ''permission denied'')"

text \<open>Four stores: one accepts everything, the others reject some operations.\<close>

fun acceptAll :: "store_op \<Rightarrow> pg_error option" where
  "acceptAll _ = None"

fun rejectMessages :: "store_op \<Rightarrow> pg_error option" where
  "rejectMessages (InsertMessage _ _ _ _) = Some denied"
| "rejectMessages _ = None"

fun rejectUserMessage :: "store_op \<Rightarrow> pg_error option" where
  "rejectUserMessage (InsertMessage _ _ User _) = Some denied"
| "rejectUserMessage _ = None"

fun rejectAll :: "store_op \<Rightarrow> pg_error option" where
  "rejectAll _ = Some denied"

text \<open>
  Collaborators with fixed answers; the store numbers its rows and stamps them by the
  length of the trace.
\<close>

definition demoEnv ::
  "(js_thrown + chunk list) \<Rightarrow> (js_thrown + http_response) \<Rightarrow> (store_op \<Rightarrow> pg_error option)
     \<Rightarrow> env" where
  "demoEnv found replied fault =
     \<lparr>searchSimilarContent = (\<lambda>w q b k. found),
      fetch = (\<lambda>w request. replied),
      storeFault = (\<lambda>w. fault),
      generatedId = (\<lambda>w. ascii ''row'' @ digits (length (events w))),
      timestamp = (\<lambda>w. length (events w))\<rparr>"

definition firstRequest :: QARequest where
  "firstRequest =
     \<lparr>question = ascii ''What is X?'', bookId = ascii ''doc1'', sessionId = None,
      userId = ascii ''u1''\<rparr>"

definition followUpRequest :: QARequest where
  "followUpRequest = firstRequest\<lparr>QARequest.sessionId := Some (ascii ''s42'')\<rparr>"

definition blankSessionRequest :: QARequest where
  "blankSessionRequest = firstRequest\<lparr>QARequest.sessionId := Some []\<rparr>"

text \<open>A question of 60 code units.\<close>

definition longQuestion :: jsstring where
  "longQuestion = ascii ''What does the book say about photosynthesis in green plants?''"

text \<open>
  A world with history: three sessions, and four messages stored out of time order.
\<close>

definition sessionAt :: "string \<Rightarrow> string \<Rightarrow> nat \<Rightarrow> session_row" where
  "sessionAt name user t =
     \<lparr>session_row.id = ascii name, user_id = ascii user, book_id = ascii ''doc1'',
      title = ascii ''What is X?'', created_at = 1, updated_at = t\<rparr>"

definition messageAt :: "string \<Rightarrow> string \<Rightarrow> nat \<Rightarrow> message_row" where
  "messageAt name session t =
     \<lparr>message_row.id = ascii name, session_id = ascii session, content = ascii ''text'',
      role = User, metadata = None, created_at = t\<rparr>"

definition historyWorld :: world where
  "historyWorld =
     \<lparr>chat_sessions = [sessionAt ''s1'' ''u1'' 40, sessionAt ''s2'' ''u1'' 90,
                        sessionAt ''s3'' ''u2'' 70],
      chat_messages = [messageAt ''m3'' ''s1'' 30, messageAt ''m1'' ''s1'' 10,
                        messageAt ''m9'' ''s2'' 15, messageAt ''m2'' ''s1'' 20],
      events = []\<rparr>"

text \<open>A passage of 300 code units, and passages with the scores 0 and none.\<close>

definition longPassage :: chunk where
  "longPassage =
     \<lparr>chunk.content = replicate 300 0x0E01, page_number = 3, metadata = None,
      similarity = Some 0.5\<rparr>"

definition zeroScored :: chunk where
  "zeroScored = passage 4 (Some 0)"

section \<open>Auxiliary facts\<close>

lemmas demo_defs = demoEnv_def emptyWorld_def firstRequest_def followUpRequest_def
  blankSessionRequest_def completion_def unavailable_def denied_def passage_def

lemmas run_defs = processQuestion_def processQuestion_try_def resolveSession_def
  createChatSession_def storeInsertSession_def storeInsertMessage_def saveChatMessage_def
  generateContextualAnswer_def generateResponse_def generateResponse_try_def
  record_event_def consoleError_def Let_def

subsection \<open>Arrays and numbers\<close>

lemma foldl_plus_sum_list:
  "foldl (\<lambda>s c. s + f c) a xs = a + sum_list (map f xs)" for a :: real
  by (induction xs arbitrary: a) simp_all

lemma calculateConfidence_mean:
  "calculateConfidence chunks =
     (if chunks = [] then 0
      else real_of_int (round (sum_list (map (\<lambda>c. numberOr (similarity c) 0.8) chunks)
             / real (length chunks) * 100)) / 100)"
  by (simp add: calculateConfidence_def mathRound_def round_def foldl_plus_sum_list Let_def)

text \<open>
  On passages without a zero score the source computes the confidence of the
  specification; its three examples hold.
\<close>

lemma calculateConfidence_agrees:
  assumes "\<forall>c \<in> set chunks. similarity c \<noteq> Some 0"
  shows "calculateConfidence chunks = spec_confidence chunks"
proof -
  have "numberOr (similarity c) 0.8 = (case similarity c of None \<Rightarrow> 0.8 | Some v \<Rightarrow> v)"
    if "c \<in> set chunks" for c
    using assms that by (auto simp: numberOr_def split: option.splits)
  then have "sum_list (map (\<lambda>c. numberOr (similarity c) 0.8) chunks)
        = sum_list (map (\<lambda>c. case similarity c of None \<Rightarrow> 0.8 | Some v \<Rightarrow> v) chunks)"
    by (intro arg_cong [where f = sum_list] map_cong) simp_all
  then show ?thesis
    by (simp only: calculateConfidence_mean spec_confidence_def)
qed

lemma calculateConfidence_examples:
  "calculateConfidence [] = 0"
  "calculateConfidence [passage 1 (Some 0.4), passage 2 (Some 0.8)] = 0.6"
  "calculateConfidence [passage 1 None] = 0.8"
  by (simp_all add: calculateConfidence_mean passage_def numberOr_def round_def)

lemma mapIndexed_length: "length (mapIndexed f i xs) = length xs"
  by (induction xs arbitrary: i) simp_all

lemma mapIndexed_nth: "k < length xs \<Longrightarrow> mapIndexed f i xs ! k = f (xs ! k) (i + k)"
proof (induction xs arbitrary: i k)
  case Nil
  then show ?case by simp
next
  case (Cons x xs)
  then show ?case by (cases k) simp_all
qed

lemma join_concat: "xs \<noteq> [] \<Longrightarrow> join sep xs = hd xs @ concat (map ((@) sep) (tl xs))"
  by (induction sep xs rule: join.induct) simp_all

subsection \<open>What each operation leaves alone\<close>

lemma generateResponse_frame:
  "chat_sessions (snd (generateResponse env w m opts)) = chat_sessions w"
  "chat_messages (snd (generateResponse env w m opts)) = chat_messages w"
  "filter touchesSessions (events (snd (generateResponse env w m opts)))
     = filter touchesSessions (events w)"
  "filter isMessageInsert (events (snd (generateResponse env w m opts)))
     = filter isMessageInsert (events w)"
  by (simp_all add: generateResponse_def generateResponse_try_def record_event_def
        consoleError_def Let_def split: sum.splits list.splits option.splits prod.splits)

lemma generateContextualAnswer_frame:
  "chat_sessions (snd (generateContextualAnswer env w q c cs)) = chat_sessions w"
  "chat_messages (snd (generateContextualAnswer env w q c cs)) = chat_messages w"
  "filter touchesSessions (events (snd (generateContextualAnswer env w q c cs)))
     = filter touchesSessions (events w)"
  "filter isMessageInsert (events (snd (generateContextualAnswer env w q c cs)))
     = filter isMessageInsert (events w)"
  by (simp_all add: generateContextualAnswer_def Let_def generateResponse_frame)

lemma saveChatMessage_frame:
  "chat_sessions (saveChatMessage env w sid text r meta) = chat_sessions w"
  "filter touchesSessions (events (saveChatMessage env w sid text r meta))
     = filter touchesSessions (events w)"
  "filter isMessageInsert (events (saveChatMessage env w sid text r meta))
     = filter isMessageInsert (events w) @ [StoreCall (InsertMessage sid text r meta)]"
  by (simp_all add: saveChatMessage_def storeInsertMessage_def record_event_def
        consoleError_def Let_def split: option.splits)

lemma saveChatMessage_accepted:
  "storeFault env w (InsertMessage sid text r meta) = None \<Longrightarrow>
   chat_messages (saveChatMessage env w sid text r meta)
     = chat_messages w @
         [\<lparr>message_row.id = generatedId env w, session_id = sid, content = text, role = r,
           metadata = meta, created_at = timestamp env w\<rparr>]"
  by (simp add: saveChatMessage_def storeInsertMessage_def record_event_def Let_def)

lemma saveChatMessage_rejected:
  "storeFault env w (InsertMessage sid text r meta) = Some e \<Longrightarrow>
   saveChatMessage env w sid text r meta
     = w\<lparr>events := events w @ [StoreCall (InsertMessage sid text r meta),
           ConsoleError (ascii ''Error saving chat message:'') (StoreError e)]\<rparr>"
  by (simp add: saveChatMessage_def storeInsertMessage_def record_event_def consoleError_def
        Let_def)

lemma createChatSession_frame:
  "chat_messages (snd (createChatSession env w u b q)) = chat_messages w"
  "filter isMessageInsert (events (snd (createChatSession env w u b q)))
     = filter isMessageInsert (events w)"
  "filter touchesSessions (events (snd (createChatSession env w u b q)))
     = filter touchesSessions (events w) @ [StoreCall (InsertSession u b (sessionTitle q))]"
  by (simp_all add: createChatSession_def storeInsertSession_def record_event_def Let_def
        split: option.splits)

lemma createChatSession_result:
  "createChatSession env w u b q = (Inr sid, w2) \<Longrightarrow>
     sid = generatedId env w \<and>
     chat_sessions w2 = chat_sessions w @
       [\<lparr>session_row.id = generatedId env w, user_id = u, book_id = b, title = sessionTitle q,
         created_at = timestamp env w, updated_at = timestamp env w\<rparr>]"
  by (auto simp: createChatSession_def storeInsertSession_def record_event_def Let_def
        split: option.splits)

lemma resolveSession_frame:
  "chat_messages (snd (resolveSession env w req)) = chat_messages w"
  "filter isMessageInsert (events (snd (resolveSession env w req)))
     = filter isMessageInsert (events w)"
  by (simp_all add: resolveSession_def createChatSession_frame split: option.splits)

subsection \<open>The successful run\<close>

lemma processQuestion_pipeline:
  assumes "searchSimilarContent env w (question req) (bookId req) 5 = Inr chunks"
    and "resolveSession env (record_event (SearchCall (question req) (bookId req) 5) w) req
           = (Inr sid, w2)"
    and "generateContextualAnswer env w2 (question req) (buildContext chunks) chunks
           = (Inr ans, w3)"
  shows "processQuestion env w req =
           (Inr \<lparr>answer = ans, sources = map formatSource chunks, sessionId = sid\<rparr>,
            saveChatMessage env (saveChatMessage env w3 sid (question req) User None)
              sid ans Assistant
              (Some \<lparr>message_metadata.sources = map chunk.content chunks,
                     confidence = calculateConfidence chunks\<rparr>))"
  using assms by (simp add: processQuestion_def processQuestion_try_def Let_def)

lemma processQuestion_success:
  assumes "fst (processQuestion env w req) = Inr r"
  shows "\<exists>chunks sid w2 ans w3.
           searchSimilarContent env w (question req) (bookId req) 5 = Inr chunks
         \<and> resolveSession env (record_event (SearchCall (question req) (bookId req) 5) w) req
              = (Inr sid, w2)
         \<and> generateContextualAnswer env w2 (question req) (buildContext chunks) chunks
              = (Inr ans, w3)"
  using assms
  by (auto simp: processQuestion_def processQuestion_try_def Let_def
        split: sum.splits prod.splits)

subsection \<open>Frames along a run\<close>

lemma generateContextualAnswer_frameD:
  assumes "generateContextualAnswer env w q c cs = (res, w')"
  shows "chat_sessions w' = chat_sessions w"
    and "chat_messages w' = chat_messages w"
    and "filter touchesSessions (events w') = filter touchesSessions (events w)"
    and "filter isMessageInsert (events w') = filter isMessageInsert (events w)"
  using generateContextualAnswer_frame [of env w q c cs] assms by simp_all

lemma resolveSession_frameD:
  assumes "resolveSession env w req = (res, w')"
  shows "chat_messages w' = chat_messages w"
    and "filter isMessageInsert (events w') = filter isMessageInsert (events w)"
  using resolveSession_frame [of env w req] assms by simp_all

lemma record_event_frame:
  "chat_sessions (record_event ev w) = chat_sessions w"
  "chat_messages (record_event ev w) = chat_messages w"
  "events (record_event ev w) = events w @ [ev]"
  by (simp_all add: record_event_def)

lemma saveChatMessage_events_grow:
  "set (events w) \<subseteq> set (events (saveChatMessage env w sid text r meta))"
  by (auto simp: saveChatMessage_def storeInsertMessage_def record_event_def consoleError_def
        Let_def split: option.splits)

lemma processQuestion_sources:
  assumes "searchSimilarContent env w (question req) (bookId req) 5 = Inr chunks"
    and "fst (processQuestion env w req) = Inr r"
  shows "sources r = map formatSource chunks"
proof -
  from processQuestion_success [OF assms(2)] assms(1)
  obtain sid w2 ans w3 where
    "resolveSession env (record_event (SearchCall (question req) (bookId req) 5) w) req
       = (Inr sid, w2)"
    "generateContextualAnswer env w2 (question req) (buildContext chunks) chunks = (Inr ans, w3)"
    by auto
  from processQuestion_pipeline [OF assms(1) this] assms(2) show ?thesis by auto
qed

subsection \<open>Selects\<close>

lemma runSelect_history:
  "runSelect messageTextColumn messageTimeColumn
     \<lparr>eqs = [(''session_id'', sid)], orderColumn = ''created_at'', ascending = True\<rparr> rows
   = Inr (sort_key message_row.created_at (filter (\<lambda>m. session_id m = sid) rows))"
  by (simp add: runSelect_def messageTextColumn_def messageTimeColumn_def)

lemma runSelect_sessions:
  "runSelect sessionTextColumn sessionTimeColumn
     \<lparr>eqs = [(''user_id'', uid), (''book_id'', bid)], orderColumn = ''updated_at'',
      ascending = False\<rparr> rows
   = Inr (rev (sort_key updated_at (filter (\<lambda>s. user_id s = uid \<and> book_id s = bid) rows)))"
  by (simp add: runSelect_def sessionTextColumn_def sessionTimeColumn_def)

section \<open>Confidence: a zero score is replaced\<close>

text \<open>
  Claim C1. The specification asks for 0 on the empty list and otherwise for the mean of
  the similarity scores, a missing score counting as 0.8, rounded to two decimals. The
  source replaces a score of 0 as well: on the passages with scores 0 and 0.4 it returns
  0.6, where the mean of the specification is 0.2.
\<close>

theorem calculateConfidence_zero_score_diverges:
  "calculateConfidence [passage 1 (Some 0), passage 2 (Some 0.4)] = 0.6
   \<and> spec_confidence [passage 1 (Some 0), passage 2 (Some 0.4)] = 0.2"
  by (simp add: calculateConfidence_mean spec_confidence_def passage_def numberOr_def round_def)

section \<open>Context assembly\<close>

text \<open>
  Claim C2. On the empty list \<open>buildContext\<close> returns the sentinel. On a non-empty list
  it returns the blocks of \<open>contextParts\<close> joined by the separator: there is one block
  per passage, in input order, and block \<open>i\<close> (counting from 0) is the header with the
  index \<open>i + 1\<close> and the passage's page number, a line break, and the passage content.
  The separator is two line breaks, three hyphens, two line breaks.
\<close>

theorem buildContext_blocks:
  "buildContext [] = noRelevantContent
   \<and> (chunks \<noteq> [] \<longrightarrow>
        buildContext chunks
          = hd (contextParts chunks)
              @ concat (map ((@) contextSeparator) (tl (contextParts chunks))))
   \<and> length (contextParts chunks) = length chunks
   \<and> (\<forall>i < length chunks.
        contextParts chunks ! i
          = partLabel @ numberToString (int i + 1) @ pageLabel
              @ numberToString (page_number (chunks ! i)) @ ascii '']'' @ newline
              @ chunk.content (chunks ! i))
   \<and> contextSeparator = newline @ newline @ replicate 3 0x002D @ newline @ newline"
proof -
  have a: "buildContext [] = noRelevantContent" by (simp add: buildContext_def)
  have c: "length (contextParts chunks) = length chunks"
    by (simp add: contextParts_def mapIndexed_length)
  have b: "chunks \<noteq> [] \<longrightarrow> buildContext chunks
          = hd (contextParts chunks)
              @ concat (map ((@) contextSeparator) (tl (contextParts chunks)))"
  proof
    assume ne: "chunks \<noteq> []"
    with c have "contextParts chunks \<noteq> []" by (metis length_0_conv)
    with ne show "buildContext chunks
          = hd (contextParts chunks)
              @ concat (map ((@) contextSeparator) (tl (contextParts chunks)))"
      by (simp add: buildContext_def join_concat)
  qed
  have d: "\<forall>i < length chunks.
        contextParts chunks ! i
          = partLabel @ numberToString (int i + 1) @ pageLabel
              @ numberToString (page_number (chunks ! i)) @ ascii '']'' @ newline
              @ chunk.content (chunks ! i)"
    by (simp add: contextParts_def mapIndexed_nth)
  have e: "contextSeparator = newline @ newline @ replicate 3 0x002D @ newline @ newline"
    by (simp add: contextSeparator_def ascii_def numeral_3_eq_3)
  from a b c d e show ?thesis by blast
qed

theorem buildContext_blocks_witness:
  "[passage 12 None, passage 305 (Some 0.9)] \<noteq> []
   \<and> buildContext [passage 12 None, passage 305 (Some 0.9)]
       = partLabel @ ascii ''1'' @ pageLabel @ ascii ''12]'' @ newline
           @ ascii ''Plants make sugar from light.''
           @ newline @ newline @ ascii ''---'' @ newline @ newline
           @ partLabel @ ascii ''2'' @ pageLabel @ ascii ''305]'' @ newline
           @ ascii ''Plants make sugar from light.''"
proof -
  let ?cs = "[passage 12 None, passage 305 (Some 0.9)]"
  have ne: "?cs \<noteq> []" by simp
  with buildContext_blocks [of ?cs]
  have "buildContext ?cs
          = hd (contextParts ?cs) @ concat (map ((@) contextSeparator) (tl (contextParts ?cs)))"
    by blast
  moreover have "contextParts ?cs
          = [partLabel @ ascii ''1'' @ pageLabel @ ascii ''12]'' @ newline
               @ ascii ''Plants make sugar from light.'',
             partLabel @ ascii ''2'' @ pageLabel @ ascii ''305]'' @ newline
               @ ascii ''Plants make sugar from light.'']"
    by (simp add: contextParts_def passage_def numberToString_def digits.simps ascii_def)
  ultimately show ?thesis
    using ne by (simp add: contextSeparator_def)
qed

section \<open>Session title\<close>

text \<open>
  Claim C8. The title of a lazily created session is the first question itself when the
  question has at most 50 code units, and otherwise its first 50 code units followed by
  three dots. \<open>createChatSession\<close> sends exactly this title to the store, and the row
  the store appends carries it.
\<close>

theorem sessionTitle_truncates:
  "(length q \<le> 50 \<longrightarrow> sessionTitle q = q)
   \<and> (length q > 50 \<longrightarrow>
        sessionTitle q = take 50 q @ ascii ''...'' \<and> length (sessionTitle q) = 53)
   \<and> events (snd (createChatSession env w uid bid q))
        = events w @ [StoreCall (InsertSession uid bid (sessionTitle q))]
   \<and> (storeFault env w (InsertSession uid bid (sessionTitle q)) = None \<longrightarrow>
        createChatSession env w uid bid q =
          (Inr (generatedId env w),
           w\<lparr>events := events w @ [StoreCall (InsertSession uid bid (sessionTitle q))],
             chat_sessions := chat_sessions w @
               [\<lparr>session_row.id = generatedId env w, user_id = uid, book_id = bid,
                 title = sessionTitle q, created_at = timestamp env w,
                 updated_at = timestamp env w\<rparr>]\<rparr>))"
  by (auto simp: sessionTitle_def substring0_def ascii_def createChatSession_def
        storeInsertSession_def record_event_def Let_def split: option.splits)

theorem sessionTitle_truncates_witness:
  "length longQuestion > 50
   \<and> sessionTitle longQuestion
        = ascii ''What does the book say about photosynthesis in gre...''
   \<and> storeFault (demoEnv (Inr []) (Inr completion) acceptAll) emptyWorld
        (InsertSession (ascii ''u1'') (ascii ''doc1'') (sessionTitle longQuestion)) = None
   \<and> map title (chat_sessions (snd (createChatSession
        (demoEnv (Inr []) (Inr completion) acceptAll) emptyWorld
        (ascii ''u1'') (ascii ''doc1'') longQuestion)))
        = [ascii ''What does the book say about photosynthesis in gre...'']"
  using sessionTitle_truncates [of longQuestion "demoEnv (Inr []) (Inr completion) acceptAll"
          emptyWorld "ascii ''u1''" "ascii ''doc1''"]
  by (simp add: longQuestion_def ascii_def demoEnv_def emptyWorld_def)

section \<open>Failures of retrieval and generation\<close>

text \<open>
  A completion service that answers with a status that is not OK makes
  \<open>generateResponse\<close> throw, the status and the upstream message inside the error.
\<close>

lemma generateResponse_not_ok:
  assumes "fetch env w
             \<lparr>groq_request.model =
                 (case groq_options.model opts of None \<Rightarrow> DEFAULT_MODEL | Some m \<Rightarrow> m),
               messages = msgs,
               temperature =
                 (case groq_options.temperature opts of None \<Rightarrow> 0.3 | Some t \<Rightarrow> t),
               max_tokens = (case maxTokens opts of None \<Rightarrow> 1000 | Some n \<Rightarrow> n),
               stream = False\<rparr> = Inr response"
    and "\<not> ok response"
  shows "fst (generateResponse env w msgs opts)
           = Inl (Error (cannotConnectPrefix @ ascii ''Groq API error: ''
                    @ numberToString (int (status response)) @ ascii '' - ''
                    @ stringOr (case json response of Inl _ \<Rightarrow> None
                                | Inr d \<Rightarrow> error_message d)
                        (statusText response)))"
  using assms
  by (simp add: generateResponse_def generateResponse_try_def Let_def split: sum.splits)

text \<open>
  Claim C3. Whatever happens, \<open>processQuestion\<close> either returns a response or throws
  the one fixed message. When retrieval throws \<open>e\<close>, or when retrieval and session
  resolution succeed and generation throws \<open>e\<close>, it throws the fixed message, which does
  not depend on \<open>e\<close>, and \<open>e\<close> goes to the console as the last event.
\<close>

theorem processQuestion_failure_is_generic:
  "((\<exists>r. fst (processQuestion env w req) = Inr r)
      \<or> fst (processQuestion env w req) = Inl (Error processingFailed))
   \<and> (searchSimilarContent env w (question req) (bookId req) 5 = Inl e \<longrightarrow>
        processQuestion env w req =
          (Inl (Error processingFailed),
           consoleError (ascii ''Error processing question:'') (Thrown e)
             (record_event (SearchCall (question req) (bookId req) 5) w)))
   \<and> (searchSimilarContent env w (question req) (bookId req) 5 = Inr chunks
        \<and> resolveSession env (record_event (SearchCall (question req) (bookId req) 5) w) req
             = (Inr sid, w2)
        \<and> generateContextualAnswer env w2 (question req) (buildContext chunks) chunks
             = (Inl e, w3) \<longrightarrow>
        processQuestion env w req =
          (Inl (Error processingFailed),
           consoleError (ascii ''Error processing question:'') (Thrown e) w3))"
proof -
  have a: "(\<exists>r. fst (processQuestion env w req) = Inr r)
      \<or> fst (processQuestion env w req) = Inl (Error processingFailed)"
    by (cases "processQuestion_try env w req" rule: prod.exhaust [case_names Pair])
       (auto simp: processQuestion_def split: sum.splits)
  have b: "searchSimilarContent env w (question req) (bookId req) 5 = Inl e \<longrightarrow>
        processQuestion env w req =
          (Inl (Error processingFailed),
           consoleError (ascii ''Error processing question:'') (Thrown e)
             (record_event (SearchCall (question req) (bookId req) 5) w))"
    by (simp add: processQuestion_def processQuestion_try_def Let_def)
  have c: "searchSimilarContent env w (question req) (bookId req) 5 = Inr chunks
        \<and> resolveSession env (record_event (SearchCall (question req) (bookId req) 5) w) req
             = (Inr sid, w2)
        \<and> generateContextualAnswer env w2 (question req) (buildContext chunks) chunks
             = (Inl e, w3) \<longrightarrow>
        processQuestion env w req =
          (Inl (Error processingFailed),
           consoleError (ascii ''Error processing question:'') (Thrown e) w3)"
    by (simp add: processQuestion_def processQuestion_try_def Let_def)
  from a b c show ?thesis by blast
qed

theorem processQuestion_failure_is_generic_witness:
  "fst (processQuestion (demoEnv (Inl (Error (ascii ''index offline''))) (Inr completion) acceptAll)
          emptyWorld firstRequest) = Inl (Error processingFailed)
   \<and> last (events (snd (processQuestion
          (demoEnv (Inl (Error (ascii ''index offline''))) (Inr completion) acceptAll)
          emptyWorld firstRequest)))
       = ConsoleError (ascii ''Error processing question:'')
           (Thrown (Error (ascii ''index offline'')))
   \<and> fst (processQuestion (demoEnv (Inr [passage 12 None]) (Inr unavailable) acceptAll)
          emptyWorld firstRequest) = Inl (Error processingFailed)
   \<and> last (events (snd (processQuestion
          (demoEnv (Inr [passage 12 None]) (Inr unavailable) acceptAll)
          emptyWorld firstRequest)))
       = ConsoleError (ascii ''Error processing question:'')
           (Thrown (Error (cannotConnectPrefix @ ascii ''Groq API error: 503 - busy'')))"
proof -
  let ?down = "demoEnv (Inl (Error (ascii ''index offline''))) (Inr completion) acceptAll"
  let ?busy = "demoEnv (Inr [passage 12 None]) (Inr unavailable) acceptAll"
  let ?w1 = "record_event (SearchCall (question firstRequest) (bookId firstRequest) 5) emptyWorld"
  have s1: "searchSimilarContent ?down emptyWorld (question firstRequest) (bookId firstRequest) 5
              = Inl (Error (ascii ''index offline''))"
    by (simp add: demoEnv_def)
  from processQuestion_failure_is_generic [of ?down emptyWorld firstRequest
         "Error (ascii ''index offline'')"] s1
  have r1: "processQuestion ?down emptyWorld firstRequest =
          (Inl (Error processingFailed),
           consoleError (ascii ''Error processing question:'')
             (Thrown (Error (ascii ''index offline''))) ?w1)"
    by blast
  define w2 where "w2 = snd (resolveSession ?busy ?w1 firstRequest)"
  define w3 where "w3 = snd (generateContextualAnswer ?busy w2 (question firstRequest)
                               (buildContext [passage 12 None]) [passage 12 None])"
  have s2: "searchSimilarContent ?busy emptyWorld (question firstRequest) (bookId firstRequest) 5
              = Inr [passage 12 None]"
    by (simp add: demoEnv_def)
  have h2: "resolveSession ?busy ?w1 firstRequest = (Inr (ascii ''row1''), w2)"
    unfolding w2_def
    by (simp add: prod_eq_iff resolveSession_def createChatSession_def storeInsertSession_def
          record_event_def Let_def demo_defs digits.simps ascii_def)
  have h3: "generateContextualAnswer ?busy w2 (question firstRequest)
              (buildContext [passage 12 None]) [passage 12 None]
            = (Inl (Error (cannotConnectPrefix @ ascii ''Groq API error: 503 - busy'')), w3)"
    unfolding w3_def
    by (simp add: prod_eq_iff generateContextualAnswer_def generateResponse_def
          generateResponse_try_def Let_def demoEnv_def unavailable_def stringOr_def
          numberToString_def digits.simps ascii_def)
  from processQuestion_failure_is_generic [of ?busy emptyWorld firstRequest
         "Error (cannotConnectPrefix @ ascii ''Groq API error: 503 - busy'')"
         "[passage 12 None]" "ascii ''row1''" w2 w3] s2 h2 h3
  have r2: "processQuestion ?busy emptyWorld firstRequest =
          (Inl (Error processingFailed),
           consoleError (ascii ''Error processing question:'')
             (Thrown (Error (cannotConnectPrefix @ ascii ''Groq API error: 503 - busy''))) w3)"
    by blast
  from r1 r2 show ?thesis
    by (simp add: consoleError_def record_event_def)
qed

section \<open>Message persistence is soft\<close>

text \<open>
  Claim C4. When retrieval, session resolution and generation succeed,
  \<open>processQuestion\<close> returns the generated answer with the resolved session id,
  whatever the store does with the two message inserts. A rejected insert of the user
  message leaves the world unchanged but for the trace, where the store's error is
  logged; a rejected insert of the assistant message is logged as the last event.
\<close>

theorem message_insert_failure_is_swallowed:
  assumes "searchSimilarContent env w (question req) (bookId req) 5 = Inr chunks"
    and "resolveSession env (record_event (SearchCall (question req) (bookId req) 5) w) req
           = (Inr sid, w2)"
    and "generateContextualAnswer env w2 (question req) (buildContext chunks) chunks
           = (Inr ans, w3)"
  shows "fst (processQuestion env w req)
           = Inr \<lparr>answer = ans, sources = map formatSource chunks, sessionId = sid\<rparr>
   \<and> (storeFault env w3 (InsertMessage sid (question req) User None) = Some err \<longrightarrow>
        saveChatMessage env w3 sid (question req) User None
          = w3\<lparr>events := events w3 @ [StoreCall (InsertMessage sid (question req) User None),
                ConsoleError (ascii ''Error saving chat message:'') (StoreError err)]\<rparr>
        \<and> ConsoleError (ascii ''Error saving chat message:'') (StoreError err)
              \<in> set (events (snd (processQuestion env w req))))
   \<and> (storeFault env (saveChatMessage env w3 sid (question req) User None)
          (InsertMessage sid ans Assistant
             (Some \<lparr>message_metadata.sources = map chunk.content chunks,
                    confidence = calculateConfidence chunks\<rparr>)) = Some err \<longrightarrow>
        last (events (snd (processQuestion env w req)))
          = ConsoleError (ascii ''Error saving chat message:'') (StoreError err)
        \<and> chat_messages (snd (processQuestion env w req))
          = chat_messages (saveChatMessage env w3 sid (question req) User None))"
proof -
  let ?w4 = "saveChatMessage env w3 sid (question req) User None"
  let ?meta = "Some \<lparr>message_metadata.sources = map chunk.content chunks,
                      confidence = calculateConfidence chunks\<rparr>"
  note run = processQuestion_pipeline [OF assms]
  have a: "fst (processQuestion env w req)
           = Inr \<lparr>answer = ans, sources = map formatSource chunks, sessionId = sid\<rparr>"
    by (simp add: run)
  have b: "saveChatMessage env w3 sid (question req) User None
          = w3\<lparr>events := events w3 @ [StoreCall (InsertMessage sid (question req) User None),
                ConsoleError (ascii ''Error saving chat message:'') (StoreError err)]\<rparr>
        \<and> ConsoleError (ascii ''Error saving chat message:'') (StoreError err)
              \<in> set (events (snd (processQuestion env w req)))"
    if rejected: "storeFault env w3 (InsertMessage sid (question req) User None) = Some err"
  proof -
    have w4: "?w4 = w3\<lparr>events := events w3 @
                [StoreCall (InsertMessage sid (question req) User None),
                 ConsoleError (ascii ''Error saving chat message:'') (StoreError err)]\<rparr>"
      by (rule saveChatMessage_rejected [OF rejected])
    then have "ConsoleError (ascii ''Error saving chat message:'') (StoreError err)
                 \<in> set (events ?w4)"
      by simp
    with saveChatMessage_events_grow [of ?w4 env sid ans Assistant ?meta]
    have "ConsoleError (ascii ''Error saving chat message:'') (StoreError err)
            \<in> set (events (snd (processQuestion env w req)))"
      by (auto simp: run)
    with w4 show ?thesis by simp
  qed
  have c: "last (events (snd (processQuestion env w req)))
          = ConsoleError (ascii ''Error saving chat message:'') (StoreError err)
        \<and> chat_messages (snd (processQuestion env w req)) = chat_messages ?w4"
    if rejected: "storeFault env ?w4 (InsertMessage sid ans Assistant ?meta) = Some err"
    by (simp add: run saveChatMessage_rejected [OF rejected])
  from a b c show ?thesis by blast
qed

theorem message_insert_failure_is_swallowed_witness:
  "fst (processQuestion (demoEnv (Inr [passage 12 None]) (Inr completion) rejectMessages)
          emptyWorld firstRequest)
     = Inr \<lparr>answer = ascii ''Sugar.'', sources = [formatSource (passage 12 None)],
            sessionId = ascii ''row1''\<rparr>
   \<and> chat_messages (snd (processQuestion
          (demoEnv (Inr [passage 12 None]) (Inr completion) rejectMessages)
          emptyWorld firstRequest)) = []
   \<and> last (events (snd (processQuestion
          (demoEnv (Inr [passage 12 None]) (Inr completion) rejectMessages)
          emptyWorld firstRequest)))
       = ConsoleError (ascii ''Error saving chat message:'') (StoreError denied)"
proof -
  let ?env = "demoEnv (Inr [passage 12 None]) (Inr completion) rejectMessages"
  let ?w1 = "record_event (SearchCall (question firstRequest) (bookId firstRequest) 5) emptyWorld"
  define w2 where "w2 = snd (resolveSession ?env ?w1 firstRequest)"
  define w3 where "w3 = snd (generateContextualAnswer ?env w2 (question firstRequest)
                               (buildContext [passage 12 None]) [passage 12 None])"
  have s: "searchSimilarContent ?env emptyWorld (question firstRequest) (bookId firstRequest) 5
             = Inr [passage 12 None]"
    by (simp add: demoEnv_def)
  have h2: "resolveSession ?env ?w1 firstRequest = (Inr (ascii ''row1''), w2)"
    unfolding w2_def
    by (simp add: prod_eq_iff resolveSession_def createChatSession_def storeInsertSession_def
          record_event_def Let_def demo_defs digits.simps ascii_def)
  have h3: "generateContextualAnswer ?env w2 (question firstRequest)
              (buildContext [passage 12 None]) [passage 12 None]
            = (Inr (ascii ''Sugar.''), w3)"
    unfolding w3_def
    by (simp add: prod_eq_iff generateContextualAnswer_def generateResponse_def
          generateResponse_try_def Let_def demoEnv_def completion_def trim_def
          isWhiteSpace_def ascii_def)
  have m: "chat_messages w3 = []"
    unfolding w3_def w2_def
    by (simp add: generateContextualAnswer_frame resolveSession_frame record_event_frame
          emptyWorld_def)
  have f1: "storeFault ?env w3 (InsertMessage (ascii ''row1'') (question firstRequest) User None)
              = Some denied"
    by (simp add: demoEnv_def)
  have f2: "storeFault ?env
              (saveChatMessage ?env w3 (ascii ''row1'') (question firstRequest) User None)
              (InsertMessage (ascii ''row1'') (ascii ''Sugar.'') Assistant
                 (Some \<lparr>message_metadata.sources = map chunk.content [passage 12 None],
                        confidence = calculateConfidence [passage 12 None]\<rparr>))
              = Some denied"
    by (simp add: demoEnv_def)
  from message_insert_failure_is_swallowed [OF s h2 h3, of denied] f1 f2 m
  show ?thesis by simp
qed

section \<open>Session resolution\<close>

text \<open>
  Claim C5, as stated, fails: a session id that is present but is the empty string is
  falsy, so \<open>processQuestion\<close> creates a session and answers with the new id.
\<close>

theorem blank_session_id_creates_session:
  "QARequest.sessionId blankSessionRequest = Some []
   \<and> fst (processQuestion (demoEnv (Inr [passage 12 None]) (Inr completion) acceptAll)
          emptyWorld blankSessionRequest)
     = Inr \<lparr>answer = ascii ''Sugar.'', sources = [formatSource (passage 12 None)],
            sessionId = ascii ''row1''\<rparr>
   \<and> map session_row.id (chat_sessions (snd (processQuestion
          (demoEnv (Inr [passage 12 None]) (Inr completion) acceptAll)
          emptyWorld blankSessionRequest))) = [ascii ''row1'']"
  by (simp add: run_defs demo_defs trim_def isWhiteSpace_def digits.simps ascii_def)

text \<open>
  Claim C5, amended. A session id that is present and not empty is reused verbatim: the
  run issues no call on the session table, leaves the table as it was, and a response
  carries that id. When the id is absent or empty and retrieval has succeeded, the run
  issues exactly one call on the session table, the insert of a session titled after the
  question, and a response carries the id the store generated for the row it appended.
\<close>

theorem session_is_reused_or_created:
  "(QARequest.sessionId req = Some s \<and> s \<noteq> [] \<longrightarrow>
        filter touchesSessions (events (snd (processQuestion env w req)))
          = filter touchesSessions (events w)
      \<and> chat_sessions (snd (processQuestion env w req)) = chat_sessions w
      \<and> (\<forall>r. fst (processQuestion env w req) = Inr r \<longrightarrow> QAResponse.sessionId r = s))
   \<and> ((QARequest.sessionId req = None \<or> QARequest.sessionId req = Some [])
        \<and> searchSimilarContent env w (question req) (bookId req) 5 = Inr chunks \<longrightarrow>
        filter touchesSessions (events (snd (processQuestion env w req)))
          = filter touchesSessions (events w)
              @ [StoreCall (InsertSession (userId req) (bookId req)
                   (sessionTitle (question req)))]
      \<and> (\<forall>r. fst (processQuestion env w req) = Inr r \<longrightarrow>
            QAResponse.sessionId r
              = generatedId env (record_event (SearchCall (question req) (bookId req) 5) w)
          \<and> chat_sessions (snd (processQuestion env w req))
              = chat_sessions w @
                  [\<lparr>session_row.id =
                      generatedId env
                        (record_event (SearchCall (question req) (bookId req) 5) w),
                    user_id = userId req, book_id = bookId req,
                    title = sessionTitle (question req),
                    created_at =
                      timestamp env
                        (record_event (SearchCall (question req) (bookId req) 5) w),
                    updated_at =
                      timestamp env
                        (record_event (SearchCall (question req) (bookId req) 5) w)\<rparr>]))"
proof -
  let ?w1 = "record_event (SearchCall (question req) (bookId req) 5) w"
  let ?out = "processQuestion env w req"
  have reuse: "filter touchesSessions (events (snd ?out)) = filter touchesSessions (events w)
      \<and> chat_sessions (snd ?out) = chat_sessions w
      \<and> (\<forall>r. fst ?out = Inr r \<longrightarrow> QAResponse.sessionId r = s)"
    if given: "QARequest.sessionId req = Some s" "s \<noteq> []"
  proof -
    from given have res: "resolveSession env ?w1 req = (Inr s, ?w1)"
      by (simp add: resolveSession_def)
    show ?thesis
    proof (cases "searchSimilarContent env w (question req) (bookId req) 5")
      case (Inl e)
      then show ?thesis
        by (simp add: processQuestion_def processQuestion_try_def Let_def consoleError_def
              record_event_def)
    next
      case (Inr cs)
      obtain g w3 where gen:
        "generateContextualAnswer env ?w1 (question req) (buildContext cs) cs = (g, w3)"
        by (cases "generateContextualAnswer env ?w1 (question req) (buildContext cs) cs")
      note fr = generateContextualAnswer_frameD [OF gen]
      show ?thesis
      proof (cases g)
        case (Inl e)
        with Inr res gen fr show ?thesis
          by (simp add: processQuestion_def processQuestion_try_def Let_def consoleError_def
                record_event_def)
      next
        case ans: (Inr a)
        from processQuestion_pipeline [OF Inr res gen [unfolded ans]] fr show ?thesis
          by (simp add: saveChatMessage_frame record_event_def)
      qed
    qed
  qed
  have create: "filter touchesSessions (events (snd ?out))
          = filter touchesSessions (events w)
              @ [StoreCall (InsertSession (userId req) (bookId req)
                   (sessionTitle (question req)))]
      \<and> (\<forall>r. fst ?out = Inr r \<longrightarrow>
            QAResponse.sessionId r = generatedId env ?w1
          \<and> chat_sessions (snd ?out)
              = chat_sessions w @
                  [\<lparr>session_row.id = generatedId env ?w1,
                    user_id = userId req, book_id = bookId req,
                    title = sessionTitle (question req),
                    created_at = timestamp env ?w1, updated_at = timestamp env ?w1\<rparr>])"
    if blank: "QARequest.sessionId req = None \<or> QARequest.sessionId req = Some []"
      and found: "searchSimilarContent env w (question req) (bookId req) 5 = Inr chunks"
  proof -
    obtain c w2 where cre:
      "createChatSession env ?w1 (userId req) (bookId req) (question req) = (c, w2)"
      by (cases "createChatSession env ?w1 (userId req) (bookId req) (question req)")
    from blank cre have res: "resolveSession env ?w1 req = (c, w2)"
      by (auto simp: resolveSession_def)
    from createChatSession_frame(3) [of env ?w1 "userId req" "bookId req" "question req"] cre
    have ev2: "filter touchesSessions (events w2)
          = filter touchesSessions (events w)
              @ [StoreCall (InsertSession (userId req) (bookId req)
                   (sessionTitle (question req)))]"
      by (simp add: record_event_def)
    show ?thesis
    proof (cases c)
      case (Inl e)
      with found res ev2 show ?thesis
        by (simp add: processQuestion_def processQuestion_try_def Let_def consoleError_def
              record_event_def)
    next
      case sid: (Inr new)
      from createChatSession_result [OF cre [unfolded sid]]
      have new: "new = generatedId env ?w1"
        and rows: "chat_sessions w2 = chat_sessions w @
                  [\<lparr>session_row.id = generatedId env ?w1,
                    user_id = userId req, book_id = bookId req,
                    title = sessionTitle (question req),
                    created_at = timestamp env ?w1, updated_at = timestamp env ?w1\<rparr>]"
        by (simp_all add: record_event_def)
      obtain g w3 where gen:
        "generateContextualAnswer env w2 (question req) (buildContext chunks) chunks = (g, w3)"
        by (cases "generateContextualAnswer env w2 (question req) (buildContext chunks) chunks")
      note fr = generateContextualAnswer_frameD [OF gen]
      show ?thesis
      proof (cases g)
        case (Inl e)
        with found res sid gen fr ev2 show ?thesis
          by (simp add: processQuestion_def processQuestion_try_def Let_def consoleError_def
                record_event_def)
      next
        case ans: (Inr a)
        from processQuestion_pipeline [OF found res [unfolded sid] gen [unfolded ans]]
          fr ev2 new rows
        show ?thesis
          by (simp add: saveChatMessage_frame)
      qed
    qed
  qed
  from reuse create show ?thesis by blast
qed

theorem session_is_reused_or_created_witness:
  "QARequest.sessionId followUpRequest = Some (ascii ''s42'') \<and> ascii ''s42'' \<noteq> []
   \<and> fst (processQuestion (demoEnv (Inr [passage 12 None]) (Inr completion) acceptAll)
          emptyWorld followUpRequest)
     = Inr \<lparr>answer = ascii ''Sugar.'', sources = [formatSource (passage 12 None)],
            sessionId = ascii ''s42''\<rparr>
   \<and> chat_sessions (snd (processQuestion
          (demoEnv (Inr [passage 12 None]) (Inr completion) acceptAll)
          emptyWorld followUpRequest)) = []
   \<and> QARequest.sessionId firstRequest = None
   \<and> QAResponse.sessionId (projr (fst (processQuestion
          (demoEnv (Inr [passage 12 None]) (Inr completion) acceptAll)
          emptyWorld firstRequest))) = ascii ''row1''
   \<and> map title (chat_sessions (snd (processQuestion
          (demoEnv (Inr [passage 12 None]) (Inr completion) acceptAll)
          emptyWorld firstRequest))) = [ascii ''What is X?'']"
proof -
  let ?env = "demoEnv (Inr [passage 12 None]) (Inr completion) acceptAll"
  have given: "QARequest.sessionId followUpRequest = Some (ascii ''s42'')" "ascii ''s42'' \<noteq> []"
    by (simp_all add: followUpRequest_def firstRequest_def ascii_def)
  have out1: "fst (processQuestion ?env emptyWorld followUpRequest)
     = Inr \<lparr>answer = ascii ''Sugar.'', sources = [formatSource (passage 12 None)],
            sessionId = ascii ''s42''\<rparr>"
    by (simp add: run_defs demo_defs trim_def isWhiteSpace_def ascii_def)
  have absent: "QARequest.sessionId firstRequest = None"
    by (simp add: firstRequest_def)
  have found: "searchSimilarContent ?env emptyWorld (question firstRequest)
                 (bookId firstRequest) 5 = Inr [passage 12 None]"
    by (simp add: demoEnv_def)
  have out2: "fst (processQuestion ?env emptyWorld firstRequest)
     = Inr \<lparr>answer = ascii ''Sugar.'', sources = [formatSource (passage 12 None)],
            sessionId = ascii ''row1''\<rparr>"
    by (simp add: run_defs demo_defs trim_def isWhiteSpace_def digits.simps ascii_def)
  from session_is_reused_or_created [of followUpRequest "ascii ''s42''" ?env emptyWorld] given
  have a: "chat_sessions (snd (processQuestion ?env emptyWorld followUpRequest))
             = chat_sessions emptyWorld"
    by blast
  from session_is_reused_or_created [of firstRequest _ ?env emptyWorld "[passage 12 None]"]
    absent found out2
  have b: "chat_sessions (snd (processQuestion ?env emptyWorld firstRequest))
              = chat_sessions emptyWorld @
                  [\<lparr>session_row.id = generatedId ?env
                      (record_event (SearchCall (question firstRequest) (bookId firstRequest) 5)
                         emptyWorld),
                    user_id = userId firstRequest, book_id = bookId firstRequest,
                    title = sessionTitle (question firstRequest),
                    created_at = timestamp ?env
                      (record_event (SearchCall (question firstRequest) (bookId firstRequest) 5)
                         emptyWorld),
                    updated_at = timestamp ?env
                      (record_event (SearchCall (question firstRequest) (bookId firstRequest) 5)
                         emptyWorld)\<rparr>]"
    by blast
  from given out1 absent out2 a b show ?thesis
    by (simp add: emptyWorld_def firstRequest_def sessionTitle_def ascii_def)
qed

section \<open>The two messages of a turn\<close>

text \<open>
  Claim C6, as stated, fails: with a store that rejects the insert of the user message
  and accepts the insert of the assistant message, \<open>processQuestion\<close> succeeds and the
  history holds one message, the assistant's reply, without the question.
\<close>

theorem rejected_user_insert_leaves_lone_reply:
  "fst (processQuestion (demoEnv (Inr [passage 12 None]) (Inr completion) rejectUserMessage)
          emptyWorld firstRequest)
     = Inr \<lparr>answer = ascii ''Sugar.'', sources = [formatSource (passage 12 None)],
            sessionId = ascii ''row1''\<rparr>
   \<and> map message_row.role (chat_messages (snd (processQuestion
          (demoEnv (Inr [passage 12 None]) (Inr completion) rejectUserMessage)
          emptyWorld firstRequest))) = [Assistant]
   \<and> map message_row.content (chat_messages (snd (processQuestion
          (demoEnv (Inr [passage 12 None]) (Inr completion) rejectUserMessage)
          emptyWorld firstRequest))) = [ascii ''Sugar.'']"
  by (simp add: run_defs demo_defs trim_def isWhiteSpace_def digits.simps ascii_def)

text \<open>
  Claim C6, amended. When retrieval, session resolution and generation succeed, the run
  issues exactly two message inserts: first the user message with the question, then,
  in the world the first insert left, the assistant message with the answer. When the
  store accepts both, the message table grows by exactly these two rows, the user's row
  before the assistant's.
\<close>

theorem two_message_inserts_in_order:
  assumes "searchSimilarContent env w (question req) (bookId req) 5 = Inr chunks"
    and "resolveSession env (record_event (SearchCall (question req) (bookId req) 5) w) req
           = (Inr sid, w2)"
    and "generateContextualAnswer env w2 (question req) (buildContext chunks) chunks
           = (Inr ans, w3)"
  shows "filter isMessageInsert (events (snd (processQuestion env w req)))
           = filter isMessageInsert (events w)
               @ [StoreCall (InsertMessage sid (question req) User None),
                  StoreCall (InsertMessage sid ans Assistant
                    (Some \<lparr>message_metadata.sources = map chunk.content chunks,
                           confidence = calculateConfidence chunks\<rparr>))]
   \<and> (storeFault env w3 (InsertMessage sid (question req) User None) = None
        \<and> storeFault env (saveChatMessage env w3 sid (question req) User None)
             (InsertMessage sid ans Assistant
                (Some \<lparr>message_metadata.sources = map chunk.content chunks,
                       confidence = calculateConfidence chunks\<rparr>)) = None \<longrightarrow>
        chat_messages (snd (processQuestion env w req))
          = chat_messages w @
              [\<lparr>message_row.id = generatedId env w3, session_id = sid,
                content = question req, role = User, metadata = None,
                created_at = timestamp env w3\<rparr>,
               \<lparr>message_row.id =
                  generatedId env (saveChatMessage env w3 sid (question req) User None),
                session_id = sid, content = ans, role = Assistant,
                metadata = Some \<lparr>message_metadata.sources = map chunk.content chunks,
                                  confidence = calculateConfidence chunks\<rparr>,
                created_at =
                  timestamp env (saveChatMessage env w3 sid (question req) User None)\<rparr>])"
proof -
  let ?w4 = "saveChatMessage env w3 sid (question req) User None"
  let ?meta = "Some \<lparr>message_metadata.sources = map chunk.content chunks,
                      confidence = calculateConfidence chunks\<rparr>"
  note run = processQuestion_pipeline [OF assms]
  have before: "chat_messages w3 = chat_messages w"
    "filter isMessageInsert (events w3) = filter isMessageInsert (events w)"
    using generateContextualAnswer_frameD(2,4) [OF assms(3)] resolveSession_frameD [OF assms(2)]
    by (simp_all add: record_event_def)
  have a: "filter isMessageInsert (events (snd (processQuestion env w req)))
           = filter isMessageInsert (events w)
               @ [StoreCall (InsertMessage sid (question req) User None),
                  StoreCall (InsertMessage sid ans Assistant ?meta)]"
    by (simp add: run saveChatMessage_frame before)
  have b: "chat_messages (snd (processQuestion env w req))
          = chat_messages w @
              [\<lparr>message_row.id = generatedId env w3, session_id = sid,
                content = question req, role = User, metadata = None,
                created_at = timestamp env w3\<rparr>,
               \<lparr>message_row.id = generatedId env ?w4,
                session_id = sid, content = ans, role = Assistant, metadata = ?meta,
                created_at = timestamp env ?w4\<rparr>]"
    if ok1: "storeFault env w3 (InsertMessage sid (question req) User None) = None"
      and ok2: "storeFault env ?w4 (InsertMessage sid ans Assistant ?meta) = None"
    by (simp add: run saveChatMessage_accepted [OF ok2] saveChatMessage_accepted [OF ok1]
          before)
  from a b show ?thesis by blast
qed

theorem two_message_inserts_in_order_witness:
  "map message_row.role (chat_messages (snd (processQuestion
          (demoEnv (Inr [passage 12 None]) (Inr completion) acceptAll)
          emptyWorld firstRequest))) = [User, Assistant]
   \<and> map message_row.content (chat_messages (snd (processQuestion
          (demoEnv (Inr [passage 12 None]) (Inr completion) acceptAll)
          emptyWorld firstRequest))) = [ascii ''What is X?'', ascii ''Sugar.'']
   \<and> length (filter isMessageInsert (events (snd (processQuestion
          (demoEnv (Inr [passage 12 None]) (Inr completion) acceptAll)
          emptyWorld firstRequest)))) = 2"
proof -
  let ?env = "demoEnv (Inr [passage 12 None]) (Inr completion) acceptAll"
  let ?w1 = "record_event (SearchCall (question firstRequest) (bookId firstRequest) 5) emptyWorld"
  define w2 where "w2 = snd (resolveSession ?env ?w1 firstRequest)"
  define w3 where "w3 = snd (generateContextualAnswer ?env w2 (question firstRequest)
                               (buildContext [passage 12 None]) [passage 12 None])"
  have s: "searchSimilarContent ?env emptyWorld (question firstRequest) (bookId firstRequest) 5
             = Inr [passage 12 None]"
    by (simp add: demoEnv_def)
  have h2: "resolveSession ?env ?w1 firstRequest = (Inr (ascii ''row1''), w2)"
    unfolding w2_def
    by (simp add: prod_eq_iff resolveSession_def createChatSession_def storeInsertSession_def
          record_event_def Let_def demo_defs digits.simps ascii_def)
  have h3: "generateContextualAnswer ?env w2 (question firstRequest)
              (buildContext [passage 12 None]) [passage 12 None]
            = (Inr (ascii ''Sugar.''), w3)"
    unfolding w3_def
    by (simp add: prod_eq_iff generateContextualAnswer_def generateResponse_def
          generateResponse_try_def Let_def demoEnv_def completion_def trim_def
          isWhiteSpace_def ascii_def)
  have f1: "storeFault ?env w3 (InsertMessage (ascii ''row1'') (question firstRequest) User None)
              = None"
    by (simp add: demoEnv_def)
  have f2: "storeFault ?env
              (saveChatMessage ?env w3 (ascii ''row1'') (question firstRequest) User None)
              (InsertMessage (ascii ''row1'') (ascii ''Sugar.'') Assistant
                 (Some \<lparr>message_metadata.sources = map chunk.content [passage 12 None],
                        confidence = calculateConfidence [passage 12 None]\<rparr>))
              = None"
    by (simp add: demoEnv_def)
  from two_message_inserts_in_order [OF s h2 h3] f1 f2
  show ?thesis by (simp add: emptyWorld_def firstRequest_def)
qed

section \<open>Sources of the response and of the history\<close>

text \<open>
  Claim C7. When retrieval, session resolution and generation succeed, the response has
  one source per retrieved passage, in order, whose content is the first 200 code units
  of the passage content followed by three dots, whatever the length of the passage.
  The metadata sent with the assistant message holds the full content of every passage,
  and when the store accepts that insert the row it appends carries this metadata.
\<close>

theorem sources_truncated_metadata_full:
  assumes "searchSimilarContent env w (question req) (bookId req) 5 = Inr chunks"
    and "resolveSession env (record_event (SearchCall (question req) (bookId req) 5) w) req
           = (Inr sid, w2)"
    and "generateContextualAnswer env w2 (question req) (buildContext chunks) chunks
           = (Inr ans, w3)"
  shows "(\<exists>r. fst (processQuestion env w req) = Inr r
            \<and> length (sources r) = length chunks
            \<and> (\<forall>i < length chunks.
                  source.content (sources r ! i)
                    = take 200 (chunk.content (chunks ! i)) @ ascii ''...''))
   \<and> last (filter isMessageInsert (events (snd (processQuestion env w req))))
        = StoreCall (InsertMessage sid ans Assistant
            (Some \<lparr>message_metadata.sources = map chunk.content chunks,
                   confidence = calculateConfidence chunks\<rparr>))
   \<and> (storeFault env (saveChatMessage env w3 sid (question req) User None)
          (InsertMessage sid ans Assistant
             (Some \<lparr>message_metadata.sources = map chunk.content chunks,
                    confidence = calculateConfidence chunks\<rparr>)) = None \<longrightarrow>
        message_row.role (last (chat_messages (snd (processQuestion env w req)))) = Assistant
        \<and> message_row.content (last (chat_messages (snd (processQuestion env w req)))) = ans
        \<and> message_row.metadata (last (chat_messages (snd (processQuestion env w req))))
            = Some \<lparr>message_metadata.sources = map chunk.content chunks,
                    confidence = calculateConfidence chunks\<rparr>)"
proof -
  let ?w4 = "saveChatMessage env w3 sid (question req) User None"
  let ?meta = "Some \<lparr>message_metadata.sources = map chunk.content chunks,
                      confidence = calculateConfidence chunks\<rparr>"
  note run = processQuestion_pipeline [OF assms]
  have a: "\<exists>r. fst (processQuestion env w req) = Inr r
            \<and> length (sources r) = length chunks
            \<and> (\<forall>i < length chunks.
                  source.content (sources r ! i)
                    = take 200 (chunk.content (chunks ! i)) @ ascii ''...'')"
    by (simp add: run formatSource_def substring0_def)
  have b: "last (filter isMessageInsert (events (snd (processQuestion env w req))))
        = StoreCall (InsertMessage sid ans Assistant ?meta)"
    by (simp add: run saveChatMessage_frame)
  have c: "message_row.role (last (chat_messages (snd (processQuestion env w req)))) = Assistant
        \<and> message_row.content (last (chat_messages (snd (processQuestion env w req)))) = ans
        \<and> message_row.metadata (last (chat_messages (snd (processQuestion env w req))))
            = ?meta"
    if ok2: "storeFault env ?w4 (InsertMessage sid ans Assistant ?meta) = None"
    by (simp add: run saveChatMessage_accepted [OF ok2])
  from a b c show ?thesis by blast
qed

theorem sources_truncated_metadata_full_witness:
  "length (chunk.content longPassage) = 300
   \<and> map length (map source.content
        (sources (projr (fst (processQuestion
           (demoEnv (Inr [longPassage]) (Inr completion) acceptAll) emptyWorld firstRequest)))))
      = [203]
   \<and> map_option message_metadata.sources
        (message_row.metadata (last (chat_messages (snd (processQuestion
           (demoEnv (Inr [longPassage]) (Inr completion) acceptAll) emptyWorld firstRequest)))))
      = Some [replicate 300 0x0E01]"
proof -
  let ?env = "demoEnv (Inr [longPassage]) (Inr completion) acceptAll"
  let ?w1 = "record_event (SearchCall (question firstRequest) (bookId firstRequest) 5) emptyWorld"
  define w2 where "w2 = snd (resolveSession ?env ?w1 firstRequest)"
  define w3 where "w3 = snd (generateContextualAnswer ?env w2 (question firstRequest)
                               (buildContext [longPassage]) [longPassage])"
  have s: "searchSimilarContent ?env emptyWorld (question firstRequest) (bookId firstRequest) 5
             = Inr [longPassage]"
    by (simp add: demoEnv_def)
  have h2: "resolveSession ?env ?w1 firstRequest = (Inr (ascii ''row1''), w2)"
    unfolding w2_def
    by (simp add: prod_eq_iff resolveSession_def createChatSession_def storeInsertSession_def
          record_event_def Let_def demoEnv_def emptyWorld_def firstRequest_def digits.simps
          ascii_def)
  have h3: "generateContextualAnswer ?env w2 (question firstRequest)
              (buildContext [longPassage]) [longPassage]
            = (Inr (ascii ''Sugar.''), w3)"
    unfolding w3_def
    by (simp add: prod_eq_iff generateContextualAnswer_def generateResponse_def
          generateResponse_try_def Let_def demoEnv_def completion_def trim_def
          isWhiteSpace_def ascii_def)
  have f2: "storeFault ?env
              (saveChatMessage ?env w3 (ascii ''row1'') (question firstRequest) User None)
              (InsertMessage (ascii ''row1'') (ascii ''Sugar.'') Assistant
                 (Some \<lparr>message_metadata.sources = map chunk.content [longPassage],
                        confidence = calculateConfidence [longPassage]\<rparr>))
              = None"
    by (simp add: demoEnv_def)
  note inst = sources_truncated_metadata_full [OF s h2 h3]
  from inst obtain r where r: "fst (processQuestion ?env emptyWorld firstRequest) = Inr r"
    "length (sources r) = length [longPassage]"
    "\<forall>i < length [longPassage].
       source.content (sources r ! i)
         = take 200 (chunk.content ([longPassage] ! i)) @ ascii ''...''"
    by blast
  from r(2) obtain x where x: "sources r = [x]"
    by (cases "sources r") auto
  with r(3) have "source.content x = take 200 (chunk.content longPassage) @ ascii ''...''"
    by simp
  then have len: "length (source.content x) = 203"
    by (simp add: longPassage_def ascii_def)
  from inst f2
  have meta: "message_row.metadata (last (chat_messages
                (snd (processQuestion ?env emptyWorld firstRequest))))
            = Some \<lparr>message_metadata.sources = map chunk.content [longPassage],
                    confidence = calculateConfidence [longPassage]\<rparr>"
    by blast
  from r(1) x len meta show ?thesis
    by (simp add: longPassage_def)
qed

section \<open>A zero score in the response\<close>

text \<open>
  Claim C10. A passage whose similarity score is present and exactly 0 is treated like a
  passage without a score: in any list the confidence is the one obtained with the score
  removed, the confidence of the passage alone is 0.8, and the source formatted for the
  response is the one of the passage without a score, with confidence 0.8, also inside
  the response of a successful \<open>processQuestion\<close>.
\<close>

theorem zero_score_counts_as_missing:
  assumes "similarity c = Some 0"
  shows "calculateConfidence (xs @ c # ys)
           = calculateConfidence (xs @ c\<lparr>similarity := None\<rparr> # ys)
   \<and> calculateConfidence [c] = 0.8
   \<and> formatSource c = formatSource (c\<lparr>similarity := None\<rparr>)
   \<and> source.confidence (formatSource c) = 0.8
   \<and> (searchSimilarContent env w (question req) (bookId req) 5 = Inr chunks
        \<and> fst (processQuestion env w req) = Inr r
        \<and> i < length chunks \<and> chunks ! i = c \<longrightarrow>
        source.confidence (sources r ! i) = 0.8)"
proof -
  have a: "calculateConfidence (xs @ c # ys)
           = calculateConfidence (xs @ c\<lparr>similarity := None\<rparr> # ys)"
    using assms by (simp add: calculateConfidence_mean numberOr_def)
  have b: "calculateConfidence [c] = 0.8"
    using assms by (simp add: calculateConfidence_mean numberOr_def round_def)
  have e: "formatSource c = formatSource (c\<lparr>similarity := None\<rparr>)"
    using assms by (simp add: formatSource_def numberOr_def)
  have f: "source.confidence (formatSource c) = 0.8"
    using assms by (simp add: formatSource_def numberOr_def)
  have g: "source.confidence (sources r ! i) = 0.8"
    if "searchSimilarContent env w (question req) (bookId req) 5 = Inr chunks"
      and "fst (processQuestion env w req) = Inr r"
      and "i < length chunks" and "chunks ! i = c"
    using processQuestion_sources [OF that(1,2)] that(3,4) f by simp
  from a b e f g show ?thesis by blast
qed

theorem zero_score_counts_as_missing_witness:
  "similarity zeroScored = Some 0
   \<and> calculateConfidence [zeroScored] = 0.8
   \<and> calculateConfidence [passage 1 (Some 0.4), zeroScored] = 0.6
   \<and> map source.confidence (sources (projr (fst (processQuestion
        (demoEnv (Inr [zeroScored]) (Inr completion) acceptAll) emptyWorld firstRequest))))
      = [0.8]"
proof -
  let ?env = "demoEnv (Inr [zeroScored]) (Inr completion) acceptAll"
  have z: "similarity zeroScored = Some 0"
    by (simp add: zeroScored_def passage_def)
  have found: "searchSimilarContent ?env emptyWorld (question firstRequest)
                 (bookId firstRequest) 5 = Inr [zeroScored]"
    by (simp add: demoEnv_def)
  have out: "fst (processQuestion ?env emptyWorld firstRequest)
     = Inr \<lparr>answer = ascii ''Sugar.'', sources = [formatSource zeroScored],
            sessionId = ascii ''row1''\<rparr>"
    by (simp add: run_defs demoEnv_def emptyWorld_def firstRequest_def completion_def
          trim_def isWhiteSpace_def digits.simps ascii_def)
  note inst = zero_score_counts_as_missing [OF z,
      of "[passage 1 (Some 0.4)]" "[]" ?env emptyWorld firstRequest "[zeroScored]"
         "\<lparr>answer = ascii ''Sugar.'', sources = [formatSource zeroScored],
           sessionId = ascii ''row1''\<rparr>" 0]
  from inst have a: "calculateConfidence [zeroScored] = 0.8" by blast
  from inst have b: "calculateConfidence ([passage 1 (Some 0.4)] @ zeroScored # [])
           = calculateConfidence ([passage 1 (Some 0.4)] @ zeroScored\<lparr>similarity := None\<rparr> # [])"
    by blast
  have b': "calculateConfidence [passage 1 (Some 0.4), zeroScored\<lparr>similarity := None\<rparr>] = 0.6"
    by (simp add: calculateConfidence_mean numberOr_def passage_def round_def)
  from inst found out have c: "source.confidence (formatSource zeroScored) = 0.8"
    by blast
  from z a b b' c out show ?thesis by simp
qed

section \<open>Reading history and sessions\<close>

text \<open>
  Claim C9. When the store answers the select, \<open>getChatHistory\<close> returns exactly the
  messages of the session, ordered by creation time, oldest first, and
  \<open>getUserChatSessions\<close> returns exactly the sessions of the user for the book, ordered
  by update time, latest first. When the store answers with an error, each returns the
  empty list and logs the error. Neither changes the tables.
\<close>

theorem reads_are_ordered_and_degrade:
  "(storeFault env w (SelectMessages
       \<lparr>eqs = [(''session_id'', sid)], orderColumn = ''created_at'', ascending = True\<rparr>) = None
     \<longrightarrow> sorted (map message_row.created_at (fst (getChatHistory env w sid)))
       \<and> mset (fst (getChatHistory env w sid))
           = mset (filter (\<lambda>m. session_id m = sid) (chat_messages w)))
   \<and> (storeFault env w (SelectMessages
       \<lparr>eqs = [(''session_id'', sid)], orderColumn = ''created_at'', ascending = True\<rparr>) = Some e
     \<longrightarrow> fst (getChatHistory env w sid) = []
       \<and> last (events (snd (getChatHistory env w sid)))
           = ConsoleError (ascii ''Error fetching chat history:'') (StoreError e))
   \<and> (storeFault env w (SelectSessions
       \<lparr>eqs = [(''user_id'', uid), (''book_id'', bid)], orderColumn = ''updated_at'',
        ascending = False\<rparr>) = None
     \<longrightarrow> sorted (rev (map updated_at (fst (getUserChatSessions env w uid bid))))
       \<and> mset (fst (getUserChatSessions env w uid bid))
           = mset (filter (\<lambda>s. user_id s = uid \<and> book_id s = bid) (chat_sessions w)))
   \<and> (storeFault env w (SelectSessions
       \<lparr>eqs = [(''user_id'', uid), (''book_id'', bid)], orderColumn = ''updated_at'',
        ascending = False\<rparr>) = Some e
     \<longrightarrow> fst (getUserChatSessions env w uid bid) = []
       \<and> last (events (snd (getUserChatSessions env w uid bid)))
           = ConsoleError (ascii ''Error fetching chat sessions:'') (StoreError e))
   \<and> chat_messages (snd (getChatHistory env w sid)) = chat_messages w
   \<and> chat_sessions (snd (getChatHistory env w sid)) = chat_sessions w
   \<and> chat_messages (snd (getUserChatSessions env w uid bid)) = chat_messages w
   \<and> chat_sessions (snd (getUserChatSessions env w uid bid)) = chat_sessions w"
proof -
  have a: "sorted (map message_row.created_at (fst (getChatHistory env w sid)))
       \<and> mset (fst (getChatHistory env w sid))
           = mset (filter (\<lambda>m. session_id m = sid) (chat_messages w))"
    if "storeFault env w (SelectMessages
       \<lparr>eqs = [(''session_id'', sid)], orderColumn = ''created_at'', ascending = True\<rparr>) = None"
    using that
    by (simp add: getChatHistory_def storeSelectMessages_def runSelect_history Let_def)
  have b: "fst (getChatHistory env w sid) = []
       \<and> last (events (snd (getChatHistory env w sid)))
           = ConsoleError (ascii ''Error fetching chat history:'') (StoreError e)"
    if "storeFault env w (SelectMessages
       \<lparr>eqs = [(''session_id'', sid)], orderColumn = ''created_at'', ascending = True\<rparr>) = Some e"
    using that
    by (simp add: getChatHistory_def storeSelectMessages_def Let_def consoleError_def
          record_event_def)
  have c: "sorted (rev (map updated_at (fst (getUserChatSessions env w uid bid))))
       \<and> mset (fst (getUserChatSessions env w uid bid))
           = mset (filter (\<lambda>s. user_id s = uid \<and> book_id s = bid) (chat_sessions w))"
    if "storeFault env w (SelectSessions
       \<lparr>eqs = [(''user_id'', uid), (''book_id'', bid)], orderColumn = ''updated_at'',
        ascending = False\<rparr>) = None"
    using that
    by (simp add: getUserChatSessions_def storeSelectSessions_def runSelect_sessions Let_def
          rev_map [symmetric])
  have d: "fst (getUserChatSessions env w uid bid) = []
       \<and> last (events (snd (getUserChatSessions env w uid bid)))
           = ConsoleError (ascii ''Error fetching chat sessions:'') (StoreError e)"
    if "storeFault env w (SelectSessions
       \<lparr>eqs = [(''user_id'', uid), (''book_id'', bid)], orderColumn = ''updated_at'',
        ascending = False\<rparr>) = Some e"
    using that
    by (simp add: getUserChatSessions_def storeSelectSessions_def Let_def consoleError_def
          record_event_def)
  have f: "chat_messages (snd (getChatHistory env w sid)) = chat_messages w"
    "chat_sessions (snd (getChatHistory env w sid)) = chat_sessions w"
    by (simp_all add: getChatHistory_def storeSelectMessages_def runSelect_history Let_def
          consoleError_def record_event_def split: option.splits)
  have g: "chat_messages (snd (getUserChatSessions env w uid bid)) = chat_messages w"
    "chat_sessions (snd (getUserChatSessions env w uid bid)) = chat_sessions w"
    by (simp_all add: getUserChatSessions_def storeSelectSessions_def runSelect_sessions Let_def
          consoleError_def record_event_def split: option.splits)
  from a b c d f g show ?thesis by blast
qed

theorem reads_are_ordered_and_degrade_witness:
  "map message_row.id (fst (getChatHistory (demoEnv (Inr []) (Inr completion) acceptAll)
        historyWorld (ascii ''s1'')))
     = [ascii ''m1'', ascii ''m2'', ascii ''m3'']
   \<and> map session_row.id (fst (getUserChatSessions (demoEnv (Inr []) (Inr completion) acceptAll)
        historyWorld (ascii ''u1'') (ascii ''doc1'')))
     = [ascii ''s2'', ascii ''s1'']
   \<and> fst (getChatHistory (demoEnv (Inr []) (Inr completion) rejectAll)
        historyWorld (ascii ''s1'')) = []
   \<and> fst (getUserChatSessions (demoEnv (Inr []) (Inr completion) rejectAll)
        historyWorld (ascii ''u1'') (ascii ''doc1'')) = []"
proof -
  let ?up = "demoEnv (Inr []) (Inr completion) acceptAll"
  let ?down = "demoEnv (Inr []) (Inr completion) rejectAll"
  have up: "storeFault ?up historyWorld op = None" for op
    by (simp add: demoEnv_def)
  have down: "storeFault ?down historyWorld op = Some denied" for op
    by (simp add: demoEnv_def)
  have h: "map message_row.id (fst (getChatHistory ?up historyWorld (ascii ''s1'')))
     = [ascii ''m1'', ascii ''m2'', ascii ''m3'']"
    by (simp add: getChatHistory_def storeSelectMessages_def runSelect_history Let_def
          demoEnv_def historyWorld_def messageAt_def ascii_def)
  have s: "map session_row.id (fst (getUserChatSessions ?up historyWorld (ascii ''u1'')
        (ascii ''doc1''))) = [ascii ''s2'', ascii ''s1'']"
    by (simp add: getUserChatSessions_def storeSelectSessions_def runSelect_sessions Let_def
          demoEnv_def historyWorld_def sessionAt_def ascii_def)
  from reads_are_ordered_and_degrade [of ?down historyWorld "ascii ''s1''" denied
         "ascii ''u1''" "ascii ''doc1''"] down
  have e: "fst (getChatHistory ?down historyWorld (ascii ''s1'')) = []"
    "fst (getUserChatSessions ?down historyWorld (ascii ''u1'') (ascii ''doc1'')) = []"
    by blast+
  from reads_are_ordered_and_degrade [of ?up historyWorld "ascii ''s1''" _
         "ascii ''u1''" "ascii ''doc1''"] up
  have o: "sorted (map message_row.created_at
             (fst (getChatHistory ?up historyWorld (ascii ''s1''))))"
    by blast
  from h s e o show ?thesis by simp
qed

end
